theory Spec2Isabelle
  imports Complex_Main "HOL-Library.Word"
begin

section \<open>Realtime voice session engine of sensei-ai\<close>

text \<open>
  The four voice components (LiveSensei, VoiceCoder, OralEvaluator, GoalCollector) each
  run one React effect keyed on \<open>retryCount\<close>. The effect body creates the closure
  variables \<open>mounted\<close> and \<open>cleanupSession\<close>, starts the session and registers the
  channel callbacks. The model keeps the two kinds of state apart, as JavaScript does:
  \<^item> \<open>closure\<close>: the variables captured by one run of the effect (including the
    \<open>retryCount\<close> of the render that ran it);
  \<^item> \<open>component\<close>: the React state, the refs, and the objects of the browser the
    code acts on (audio nodes, microphone tracks, timers, the remote channel).
  JavaScript numbers are modelled as reals, times of the audio clock in seconds and
  timer delays in milliseconds.

  Sources: LiveSensei is \<open>src/unnamed/part_002\<close>, OralEvaluator is
  \<open>src/unnamed/part_003\<close>, VoiceCoder and SenseiCodeGuardian are in
  \<open>src/components/VoiceCoder.tsx\<close>, GoalCollector is \<open>src/components/GoalCollector.tsx\<close>
  and GuardianAgent is in \<open>src/components/RepoExplainer.tsx\<close>.
\<close>

subsection \<open>Strings\<close>

text \<open>\<open>String.prototype.includes\<close>: the needle occurs as a contiguous substring.\<close>

fun starts_with :: "string \<Rightarrow> string \<Rightarrow> bool" where
  "starts_with s [] = True"
| "starts_with [] (y # ys) = False"
| "starts_with (x # xs) (y # ys) = (x = y \<and> starts_with xs ys)"

fun includes_str :: "string \<Rightarrow> string \<Rightarrow> bool" where
  "includes_str [] t = starts_with [] t"
| "includes_str (x # xs) t = (starts_with (x # xs) t \<or> includes_str xs t)"

text \<open>\<open>String.prototype.toLowerCase\<close> on the ASCII letters; other bytes are kept.\<close>

definition lower_char :: "char \<Rightarrow> char" where
  "lower_char ch =
     (if 65 \<le> (of_char ch :: nat) \<and> (of_char ch :: nat) \<le> 90
      then char_of ((of_char ch :: nat) + 32) else ch)"

definition toLowerCase :: "string \<Rightarrow> string" where
  "toLowerCase s = map lower_char s"

subsection \<open>Exceptions and outcomes\<close>

datatype js_exn = TypeError | InvalidStateError | CallbackError

text \<open>
  A block of code either returns with the state it reached, or throws with the state
  reached at the throw.
\<close>

datatype 's outcome = Returned 's | Threw js_exn 's

definition then_do :: "'s outcome \<Rightarrow> ('s \<Rightarrow> 's outcome) \<Rightarrow> 's outcome" where
  "then_do r f = (case r of Returned s \<Rightarrow> f s | Threw e s \<Rightarrow> Threw e s)"

text \<open>\<open>xs.forEach(f)\<close> and \<open>for (const x of xs)\<close>: a throw leaves the loop.\<close>

fun forEach :: "('a \<Rightarrow> 's \<Rightarrow> 's outcome) \<Rightarrow> 'a list \<Rightarrow> 's \<Rightarrow> 's outcome" where
  "forEach f [] s = Returned s"
| "forEach f (x # xs) s = then_do (f x s) (forEach f xs)"

text \<open>\<open>try { body } catch(e) {}\<close>\<close>

definition try_catch_ignore :: "('s \<Rightarrow> 's outcome) \<Rightarrow> 's \<Rightarrow> 's outcome" where
  "try_catch_ignore body s =
     (case body s of Returned s' \<Rightarrow> Returned s' | Threw e s' \<Rightarrow> Returned s')"

subsection \<open>Data\<close>

text \<open>The object of a tool call's arguments: property name to value, values as text.\<close>

type_synonym args = "(string \<times> string) list"

record function_call =
  fc_id :: string
  fc_name :: string
  fc_args :: "args option"

record function_response =
  fr_id :: string
  fr_name :: string
  fr_result :: string

record resource =
  res_type :: "string option"
  res_title :: "string option"
  res_content :: "string option"

record question =
  q :: "string option"
  opts :: "string option"
  num :: "string option"

text \<open>
  A \<open>LiveServerMessage\<close>: \<open>msg.toolCall.functionCalls\<close>, the base64 payload
  \<open>msg.serverContent?.modelTurn?.parts?.[0]?.inlineData?.data\<close> and
  \<open>msg.serverContent?.interrupted\<close>.
\<close>

record server_message =
  toolCall :: "function_call list option"
  audioData :: "string option"
  interrupted :: bool

text \<open>Calls on the audio output: \<open>source.start(when)\<close> with the buffer's duration, and \<open>source.stop()\<close>.\<close>

datatype audio_event = Start nat real real | Stop nat

datatype ctx_state = CtxSuspended | CtxRunning | CtxClosed

datatype chan = ChanLive | ChanClosed

text \<open>
  The variables one run of the effect captures: \<open>let mounted\<close>, the \<open>retryCount\<close> of
  the render that ran the effect, whether \<open>cleanupSession\<close> has been assigned, and
  whether the props \<open>examContext\<close> and \<open>repoContext\<close> are given.
\<close>

record closure =
  mounted :: bool
  retryCount_seen :: nat
  cleanupSession :: bool
  examContext :: bool
  repoContext :: bool

text \<open>
  The state the callbacks act on. React state: \<open>connected\<close>, \<open>status\<close>, \<open>error\<close>,
  \<open>retryCount\<close>, \<open>currentResource\<close> (LiveSensei), \<open>currentQuestion\<close> and
  \<open>selectedOption\<close> (OralEvaluator). Refs: \<open>connectedRef\<close>, the two audio contexts
  (by their state, when created), \<open>streamRef\<close> (the stream by its number),
  \<open>nextStartTimeRef\<close> and \<open>sourcesRef\<close> (the source nodes by their numbers, in
  insertion order). The browser and the channel: the number of source nodes created,
  the calls made on the audio output, the streams whose tracks are live, the number of
  \<open>getUserMedia\<close> calls, the remote channel of the current effect run, the tool
  responses sent, the calls made to \<open>onProgressUpdate\<close>, and the delays of the pending
  retry timers.
\<close>

record component =
  connected_st :: bool
  status :: string
  error :: "string option"
  retryCount :: nat
  currentResource :: "resource option"
  currentQuestion :: "question option"
  selectedOption :: "nat option"
  connectedRef :: bool
  inputContextRef :: "ctx_state option"
  outputContextRef :: "ctx_state option"
  streamRef :: "nat option"
  nextStartTimeRef :: real
  sourcesRef :: "nat list"
  nodes_created :: nat
  audio_log :: "audio_event list"
  live_tracks :: "nat list"
  getUserMedia_calls :: nat
  channel :: "chan option"
  tool_responses :: "function_response list"
  progress_updates :: "args option list"
  timers :: "real list"

subsection \<open>Playback scheduling (LiveSensei lines 284-289, VoiceCoder lines 335-340)\<close>

text \<open>
  \<open>now\<close> is \<open>ctx.currentTime\<close>, \<open>d\<close> is \<open>buffer.duration\<close>. The new source node
  gets the next free node number, is started at the running offset and added to
  \<open>sourcesRef\<close>.
\<close>

definition schedule_buffer :: "real \<Rightarrow> real \<Rightarrow> component \<Rightarrow> component" where
  "schedule_buffer now d s =
     (let t = (if nextStartTimeRef s < now then now else nextStartTimeRef s)
      in s\<lparr> nextStartTimeRef := t + d,
             sourcesRef := (if nodes_created s \<in> set (sourcesRef s) then sourcesRef s
                            else sourcesRef s @ [nodes_created s]),
             nodes_created := nodes_created s + 1,
             audio_log := audio_log s @ [Start (nodes_created s) t d] \<rparr>)"

text \<open>\<open>source.onended = () => sourcesRef.current.delete(source)\<close>\<close>

definition onended :: "nat \<Rightarrow> component \<Rightarrow> component" where
  "onended k s = s\<lparr> sourcesRef := removeAll k (sourcesRef s) \<rparr>"

text \<open>
  A run of the scheduler over chunks arriving in order, each given as the clock
  reading at its scheduling and its buffer duration.
\<close>

fun schedule_all :: "(real \<times> real) list \<Rightarrow> component \<Rightarrow> component" where
  "schedule_all [] s = s"
| "schedule_all ((now, d) # cs) s = schedule_all cs (schedule_buffer now d s)"

text \<open>The start times handed to \<open>source.start\<close>, in call order.\<close>

fun start_times :: "audio_event list \<Rightarrow> real list" where
  "start_times [] = []"
| "start_times (Start k t d # es) = t # start_times es"
| "start_times (Stop k # es) = start_times es"

text \<open>
  The specification's reading of \<open>enqueue\<close>, for comparison with the code: each chunk
  starts at \<open>max(now, playbackClockOffset)\<close> and the offset advances by the chunk's
  duration.
\<close>

fun spec_starts :: "real \<Rightarrow> (real \<times> real) list \<Rightarrow> real list" where
  "spec_starts off [] = []"
| "spec_starts off ((now, d) # cs) = max now off # spec_starts (max now off + d) cs"

fun spec_offset :: "real \<Rightarrow> (real \<times> real) list \<Rightarrow> real" where
  "spec_offset off [] = off"
| "spec_offset off ((now, d) # cs) = spec_offset (max now off + d) cs"

subsection \<open>Barge-in (LiveSensei lines 292-296, VoiceCoder 343-347, GoalCollector 196-200)\<close>

text \<open>
  \<open>s.stop()\<close> on a source node. Whether the call throws is decided by the browser
  (\<open>stop_throws\<close>); a call that goes through is logged on the audio output.
\<close>

definition source_stop :: "(nat \<Rightarrow> bool) \<Rightarrow> nat \<Rightarrow> component \<Rightarrow> component outcome" where
  "source_stop stop_throws k s =
     (if stop_throws k then Threw InvalidStateError s
      else Returned (s\<lparr> audio_log := audio_log s @ [Stop k] \<rparr>))"

text \<open>\<open>sourcesRef.current.forEach(s => { try { s.stop(); } catch(e) {} })\<close>\<close>

definition stop_sources :: "(nat \<Rightarrow> bool) \<Rightarrow> component \<Rightarrow> component outcome" where
  "stop_sources stop_throws s =
     forEach (\<lambda>k. try_catch_ignore (source_stop stop_throws k)) (sourcesRef s) s"

definition handle_interrupted :: "(nat \<Rightarrow> bool) \<Rightarrow> component \<Rightarrow> component outcome" where
  "handle_interrupted stop_throws s =
     then_do (stop_sources stop_throws s)
       (\<lambda>s1. Returned (s1\<lparr> sourcesRef := [], nextStartTimeRef := 0 \<rparr>))"

subsection \<open>Inbound audio\<close>

text \<open>
  \<open>if (audioData && outputContextRef.current)\<close>: an empty payload is falsy.
  \<open>decodeAudioData\<close> lives in \<open>services/audio-utils\<close>; the handler only reads the
  duration of the buffer it returns, so it is taken as a parameter giving that duration.
\<close>

definition handle_audio :: "(string \<Rightarrow> real) \<Rightarrow> real \<Rightarrow> string option \<Rightarrow> component \<Rightarrow> component" where
  "handle_audio decodeAudioData now a s =
     (case a of
        None \<Rightarrow> s
      | Some b \<Rightarrow>
          if b \<noteq> [] \<and> outputContextRef s \<noteq> None
          then schedule_buffer now (decodeAudioData b) s else s)"

subsection \<open>Tool calls\<close>

text \<open>
  \<open>sessionPromise.then(s => s.sendToolResponse({ functionResponses: [r] }))\<close>. The
  promise is fulfilled when a message arrives, so the response is sent.
\<close>

definition sendToolResponse :: "function_response \<Rightarrow> component \<Rightarrow> component" where
  "sendToolResponse r s = s\<lparr> tool_responses := tool_responses s @ [r] \<rparr>"

text \<open>
  The \<open>onProgressUpdate\<close> prop is the caller's function; \<open>cb a\<close> tells whether it
  returns normally on the arguments \<open>a\<close>.
\<close>

definition call_onProgressUpdate ::
    "(args option \<Rightarrow> bool) \<Rightarrow> args option \<Rightarrow> component \<Rightarrow> component outcome" where
  "call_onProgressUpdate cb a s =
     (let s1 = s\<lparr> progress_updates := progress_updates s @ [a] \<rparr>
      in if cb a then Returned s1 else Threw CallbackError s1)"

text \<open>\<open>setCurrentResource({ type: args.type, title: args.title, content: args.content })\<close>\<close>

definition show_resource :: "args option \<Rightarrow> component \<Rightarrow> component outcome" where
  "show_resource a s =
     (case a of
        None \<Rightarrow> Threw TypeError s
      | Some kv \<Rightarrow>
          Returned (s\<lparr> currentResource :=
            Some \<lparr> res_type = map_of kv ''type'', res_title = map_of kv ''title'',
                   res_content = map_of kv ''content'' \<rparr> \<rparr>))"

text \<open>The body of \<open>for (const fc of msg.toolCall.functionCalls)\<close> in LiveSensei (lines 242-265).\<close>

definition toolCall_LiveSensei ::
    "closure \<Rightarrow> (args option \<Rightarrow> bool) \<Rightarrow> function_call \<Rightarrow> component \<Rightarrow> component outcome" where
  "toolCall_LiveSensei c cb fc s =
     (if fc_name fc = ''update_progress'' then
        then_do (if mounted c then call_onProgressUpdate cb (fc_args fc) s else Returned s)
          (\<lambda>s1. Returned (sendToolResponse
                  \<lparr> fr_id = fc_id fc, fr_name = fc_name fc, fr_result = ''ok'' \<rparr> s1))
      else if fc_name fc = ''generate_resource'' then
        then_do (if mounted c then show_resource (fc_args fc) s else Returned s)
          (\<lambda>s1. Returned (sendToolResponse
                  \<lparr> fr_id = fc_id fc, fr_name = fc_name fc,
                    fr_result = ''resource_displayed'' \<rparr> s1))
      else Returned s)"

text \<open>
  OralEvaluator (lines 161-172):
  \<open>const { question, options, questionNumber } = fc.args\<close> throws on missing arguments.
\<close>

definition toolCall_OralEvaluator ::
    "closure \<Rightarrow> function_call \<Rightarrow> component \<Rightarrow> component outcome" where
  "toolCall_OralEvaluator c fc s =
     (if fc_name fc = ''display_question'' then
        (case fc_args fc of
           None \<Rightarrow> Threw TypeError s
         | Some kv \<Rightarrow>
             Returned (sendToolResponse
               \<lparr> fr_id = fc_id fc, fr_name = fc_name fc, fr_result = ''displayed'' \<rparr>
               (if mounted c
                then s\<lparr> currentQuestion :=
                          Some \<lparr> q = map_of kv ''question'', opts = map_of kv ''options'',
                                 num = map_of kv ''questionNumber'' \<rparr>,
                        selectedOption := None \<rparr>
                else s)))
      else Returned s)"

subsection \<open>The message handlers\<close>

definition onmessage_LiveSensei ::
    "closure \<Rightarrow> (args option \<Rightarrow> bool) \<Rightarrow> (string \<Rightarrow> real) \<Rightarrow> (nat \<Rightarrow> bool) \<Rightarrow> real
      \<Rightarrow> server_message \<Rightarrow> component \<Rightarrow> component outcome" where
  "onmessage_LiveSensei c cb decodeAudioData stop_throws now msg s =
     then_do
       (case toolCall msg of
          None \<Rightarrow> Returned s
        | Some fcs \<Rightarrow> forEach (toolCall_LiveSensei c cb) fcs s)
       (\<lambda>s1. let s2 = handle_audio decodeAudioData now (audioData msg) s1
             in if interrupted msg then handle_interrupted stop_throws s2 else Returned s2)"

text \<open>OralEvaluator (lines 157-197): tool calls and audio; no branch reads \<open>interrupted\<close>.\<close>

definition onmessage_OralEvaluator ::
    "closure \<Rightarrow> (string \<Rightarrow> real) \<Rightarrow> real \<Rightarrow> server_message \<Rightarrow> component \<Rightarrow> component outcome" where
  "onmessage_OralEvaluator c decodeAudioData now msg s =
     then_do
       (case toolCall msg of
          None \<Rightarrow> Returned s
        | Some fcs \<Rightarrow> forEach (toolCall_OralEvaluator c) fcs s)
       (\<lambda>s1. Returned (handle_audio decodeAudioData now (audioData msg) s1))"

subsection \<open>Numbers in status texts\<close>

fun show_nat :: "nat \<Rightarrow> string" where
  "show_nat n =
     (if n < 10 then [char_of (48 + n)]
      else show_nat (n div 10) @ [char_of (48 + n mod 10)])"

text \<open>\<open>Math.round\<close>: the nearest integer, halves upwards.\<close>

definition js_round :: "real \<Rightarrow> int" where
  "js_round x = \<lfloor>x + 1 / 2\<rfloor>"

subsection \<open>Channel callbacks\<close>

definition onopen_LiveSensei :: "closure \<Rightarrow> component \<Rightarrow> component" where
  "onopen_LiveSensei c s =
     (if mounted c
      then s\<lparr> connected_st := True, connectedRef := True,
              status := (if repoContext c then ''Repo Explainer Active''
                         else if examContext c then ''Exam Session Live''
                         else ''Sensei is Live''),
              retryCount := 0 \<rparr>
      else s)"

definition onopen_VoiceCoder :: "closure \<Rightarrow> component \<Rightarrow> component" where
  "onopen_VoiceCoder c s =
     (if mounted c
      then s\<lparr> connected_st := True, connectedRef := True, status := ''Sensei is ready'',
              retryCount := 0 \<rparr>
      else s)"

definition onopen_OralEvaluator :: "closure \<Rightarrow> component \<Rightarrow> component" where
  "onopen_OralEvaluator c s =
     (if mounted c
      then s\<lparr> connected_st := True, connectedRef := True, status := ''Evaluator Active'',
              retryCount := 0 \<rparr>
      else s)"

definition onopen_GoalCollector :: "closure \<Rightarrow> component \<Rightarrow> component" where
  "onopen_GoalCollector c s =
     (if mounted c
      then s\<lparr> connected_st := True, connectedRef := True, status := ''Listening...'',
              retryCount := 0 \<rparr>
      else s)"


text \<open>\<open>setTimeout(() => setRetryCount(c => c + 1), delay)\<close>: a pending retry timer.\<close>

definition setTimeout_retry :: "real \<Rightarrow> component \<Rightarrow> component" where
  "setTimeout_retry delay s = s\<lparr> timers := timers s @ [delay] \<rparr>"

text \<open>The \<open>i\<close>-th pending retry timer fires: \<open>setRetryCount(c => c + 1)\<close>.\<close>

definition fire_timer :: "nat \<Rightarrow> component \<Rightarrow> component" where
  "fire_timer i s =
     (if i < length (timers s)
      then s\<lparr> timers := take i (timers s) @ drop (Suc i) (timers s),
              retryCount := retryCount s + 1 \<rparr>
      else s)"

text \<open>\<open>Math.min(1000 * Math.pow(1.5, retryCount), 10000)\<close>\<close>

definition backoff_delay :: "nat \<Rightarrow> real" where
  "backoff_delay n = min (1000 * (3 / 2) ^ n) 10000"

definition model_unavailable :: "string \<Rightarrow> bool" where
  "model_unavailable errStr =
     (includes_str errStr ''not implemented'' \<or> includes_str errStr ''not supported''
      \<or> includes_str errStr ''404'')"

definition isNetworkError_LiveSensei :: "string \<Rightarrow> bool" where
  "isNetworkError_LiveSensei errStr =
     (includes_str errStr ''Network error'' \<or> includes_str errStr ''Failed to fetch''
      \<or> includes_str errStr ''503'' \<or> includes_str errStr ''Internal error'')"

text \<open>
  LiveSensei \<open>onerror\<close> (lines 305-333); \<open>errStr\<close> is \<open>String(e)\<close>. The \<open>retryCount\<close>
  it reads is the one captured by the effect run that registered the callback.
\<close>

definition onerror_LiveSensei :: "closure \<Rightarrow> string \<Rightarrow> component \<Rightarrow> component" where
  "onerror_LiveSensei c errStr s =
     (if mounted c then
        (let s1 = s\<lparr> connected_st := False, connectedRef := False \<rparr> in
         if model_unavailable errStr
         then s1\<lparr> error := Some ''Voice Model Unavailable in Region.'' \<rparr>
         else if isNetworkError_LiveSensei errStr \<and> retryCount_seen c < 5 then
           (let delay = backoff_delay (retryCount_seen c)
            in setTimeout_retry delay
                 (s1\<lparr> status := ''Network glitch. Retrying in ''
                          @ show_nat (nat (js_round (delay / 1000))) @ ''s...'' \<rparr>))
         else if retryCount_seen c < 3
         then setTimeout_retry 2000 (s1\<lparr> status := ''Reconnecting...'' \<rparr>)
         else s1\<lparr> error := Some ''Connection Lost. Please check network.'' \<rparr>)
      else s)"

definition isNetworkError_OralEvaluator :: "string \<Rightarrow> bool" where
  "isNetworkError_OralEvaluator errStr =
     (includes_str errStr ''Network error'' \<or> includes_str errStr ''Failed to fetch''
      \<or> includes_str errStr ''Internal error occurred'')"

text \<open>OralEvaluator \<open>onerror\<close> (lines 205-232).\<close>

definition onerror_OralEvaluator :: "closure \<Rightarrow> string \<Rightarrow> component \<Rightarrow> component" where
  "onerror_OralEvaluator c errStr s =
     (if mounted c then
        (let s1 = s\<lparr> connected_st := False, connectedRef := False \<rparr> in
         if isNetworkError_OralEvaluator errStr then
           (if retryCount_seen c < 5
            then setTimeout_retry 2000 (s1\<lparr> status := ''Network unstable. Retrying...'' \<rparr>)
            else s1\<lparr> error :=
                   Some ''Sensei is unable to connect. Please check your internet connection.'' \<rparr>)
         else if retryCount_seen c < 3
         then setTimeout_retry 2000 (s1\<lparr> status := ''Connection unstable. Retrying...'' \<rparr>)
         else s1\<lparr> error := Some ''Internal connection error. Please try again.'' \<rparr>)
      else s)"

subsection \<open>Starting a session (LiveSensei \<open>startSession\<close>, lines 88-381)\<close>

text \<open>
  A thrown JavaScript value: \<open>e.name\<close> and \<open>e.message\<close> (empty when absent, as both
  are only used through \<open>||\<close> and \<open>?.\<close>) and \<open>String(e)\<close>.
\<close>

record js_error =
  err_name :: string
  err_message :: string
  err_string :: string

definition new_Error :: "string \<Rightarrow> js_error" where
  "new_Error m = \<lparr> err_name = ''Error'', err_message = m, err_string = ''Error: '' @ m \<rparr>"

text \<open>The outcome of \<open>navigator.mediaDevices.getUserMedia\<close>: a new stream, or a rejection.\<close>

datatype mic_outcome = Granted nat | Rejected js_error

text \<open>The test of the inner \<open>catch\<close> (lines 107-117).\<close>

definition permission_failure :: "js_error \<Rightarrow> bool" where
  "permission_failure e =
     (let errName = err_name e;
          errMsg = (if err_message e \<noteq> [] then err_message e else err_string e)
      in errName = ''NotAllowedError'' \<or> errName = ''PermissionDeniedError''
         \<or> errName = ''SecurityError''
         \<or> includes_str (toLowerCase errMsg) ''permission denied''
         \<or> includes_str (toLowerCase errMsg) ''denied''
         \<or> includes_str (toLowerCase errMsg) ''blocked'')"

text \<open>The outer \<open>catch (err)\<close> (lines 351-380).\<close>

definition startSession_catch :: "closure \<Rightarrow> js_error \<Rightarrow> component \<Rightarrow> component" where
  "startSession_catch c err s =
     (if mounted c then
        (if err_message err = ''MICROPHONE_DENIED''
         then s\<lparr> error := Some ''MICROPHONE_DENIED'' \<rparr>
         else if includes_str (err_message err) ''Microphone access denied''
                 \<or> err_name err = ''NotAllowedError''
         then s\<lparr> error := Some ''MICROPHONE_DENIED'' \<rparr>
         else
           (let errStr = (if err_message err \<noteq> [] then err_message err else err_string err);
                isNetworkError = (includes_str errStr ''Network error''
                                  \<or> includes_str errStr ''Failed to fetch'')
            in if isNetworkError \<and> retryCount_seen c < 5 then
                 (let delay = backoff_delay (retryCount_seen c)
                  in setTimeout_retry delay
                       (s\<lparr> status := ''Network unstable. Retrying in ''
                               @ show_nat (nat (js_round (delay / 1000))) @ ''s...'' \<rparr>))
               else if retryCount_seen c < 3 then setTimeout_retry 2000 s
               else s\<lparr> error := Some ''Connection Failed'' \<rparr>))
      else s)"

text \<open>
  The synchronous head of \<open>startSession\<close>, up to the call of \<open>getUserMedia\<close>
  (lines 90-99). \<open>apiKey\<close> tells whether \<open>process.env.API_KEY\<close> is set.
\<close>

definition startSession_begin :: "bool \<Rightarrow> closure \<Rightarrow> component \<Rightarrow> component" where
  "startSession_begin apiKey c s =
     (let s1 = s\<lparr> error := None,
                   status := (if retryCount_seen c > 0
                              then ''Connecting (Attempt '' @ show_nat (retryCount_seen c + 1)
                                   @ '')...''
                              else ''Initializing Sensei...'') \<rparr>
      in if \<not> apiKey then startSession_catch c (new_Error ''API Key missing'') s1
         else s1\<lparr> getUserMedia_calls := getUserMedia_calls s1 + 1 \<rparr>)"

text \<open>\<open>if (ref.current && ref.current.state !== 'closed') ref.current.close()\<close>\<close>

definition close_context :: "ctx_state option \<Rightarrow> ctx_state option" where
  "close_context r = (case r of None \<Rightarrow> None | Some st \<Rightarrow> Some CtxClosed)"

text \<open>
  Lines 125-349, after the microphone was granted: the old audio contexts are closed
  and replaced by running ones, the capture chain is wired and the channel is opened.
  \<open>failure\<close> is an exception this part throws, if any; it is taken to strike at
  \<open>ai.live.connect\<close>, when the contexts exist and \<open>cleanupSession\<close> is not yet set.
\<close>

definition startSession_setup :: "js_error option \<Rightarrow> closure \<Rightarrow> component \<Rightarrow> closure \<times> component" where
  "startSession_setup failure c s =
     (let s1 = s\<lparr> connected_st := False, connectedRef := False,
                   inputContextRef := Some CtxRunning, outputContextRef := Some CtxRunning \<rparr>
      in case failure of
           Some e \<Rightarrow> (c, startSession_catch c e s1)
         | None \<Rightarrow> (c\<lparr> cleanupSession := True \<rparr>, s1\<lparr> channel := Some ChanLive \<rparr>))"

text \<open>\<open>stream.getTracks().forEach(track => track.stop())\<close>\<close>

definition stop_tracks :: "nat \<Rightarrow> component \<Rightarrow> component" where
  "stop_tracks k s = s\<lparr> live_tracks := removeAll k (live_tracks s) \<rparr>"

text \<open>
  The continuation of \<open>startSession\<close> when \<open>getUserMedia\<close> settles (lines 99-123 and
  on). It runs with the closure as it is at that moment: the cleanup may have cleared
  \<open>mounted\<close> in between. A granted stream \<open>k\<close> comes with live tracks.
\<close>

definition startSession_resume ::
    "mic_outcome \<Rightarrow> js_error option \<Rightarrow> closure \<Rightarrow> component \<Rightarrow> closure \<times> component" where
  "startSession_resume mic failure c s =
     (case mic of
        Granted k \<Rightarrow>
          (let s1 = s\<lparr> live_tracks := live_tracks s @ [k] \<rparr>
           in if \<not> mounted c then (c, stop_tracks k s1)
              else startSession_setup failure c (s1\<lparr> streamRef := Some k \<rparr>))
      | Rejected e \<Rightarrow>
          if permission_failure e
          then (c, startSession_catch c (new_Error ''MICROPHONE_DENIED'') s)
          else (c, startSession_catch c e s))"

subsection \<open>The effect, its cleanup and re-rendering\<close>

definition state_of :: "'s outcome \<Rightarrow> 's" where
  "state_of r = (case r of Returned s \<Rightarrow> s | Threw e s \<Rightarrow> s)"

text \<open>The function returned by the effect (LiveSensei lines 385-396).\<close>

definition cleanup_LiveSensei :: "(nat \<Rightarrow> bool) \<Rightarrow> closure \<Rightarrow> component \<Rightarrow> closure \<times> component" where
  "cleanup_LiveSensei stop_throws c s =
     (let s1 = s\<lparr> connectedRef := False,
                   inputContextRef := close_context (inputContextRef s),
                   outputContextRef := close_context (outputContextRef s) \<rparr>;
          s2 = (case streamRef s1 of
                  None \<Rightarrow> s1
                | Some k \<Rightarrow> (stop_tracks k s1)\<lparr> streamRef := None \<rparr>);
          s3 = state_of (stop_sources stop_throws s2);
          s4 = (if cleanupSession c
                then s3\<lparr> connectedRef := False,
                         channel := map_option (\<lambda>ch. ChanClosed) (channel s3) \<rparr>
                else s3)
      in (c\<lparr> mounted := False \<rparr>, s4))"

text \<open>
  The effect body (lines 85-87 and 383): fresh closure variables, then \<open>startSession()\<close>
  runs up to its first \<open>await\<close>. The props are those of the previous closure.
\<close>

definition run_effect :: "bool \<Rightarrow> closure \<Rightarrow> component \<Rightarrow> closure \<times> component" where
  "run_effect apiKey c s =
     (let c1 = c\<lparr> mounted := True, retryCount_seen := retryCount s, cleanupSession := False \<rparr>
      in (c1, startSession_begin apiKey c1 s))"

text \<open>
  React after a state change: the effect has the dependency list \<open>[retryCount]\<close>, so it
  is cleaned up and run again exactly when \<open>retryCount\<close> differs from the value of the
  render that ran it last.
\<close>

definition rerender :: "bool \<Rightarrow> (nat \<Rightarrow> bool) \<Rightarrow> closure \<Rightarrow> component \<Rightarrow> closure \<times> component" where
  "rerender apiKey stop_throws c s =
     (if retryCount s = retryCount_seen c then (c, s)
      else (case cleanup_LiveSensei stop_throws c s of (c1, s1) \<Rightarrow> run_effect apiKey c1 s1))"

text \<open>\<open>handleManualRetry\<close> (LiveSensei lines 399-402, GoalCollector lines 312-315).\<close>

definition handleManualRetry :: "component \<Rightarrow> component" where
  "handleManualRetry s = s\<lparr> error := None, retryCount := 0 \<rparr>"

text \<open>A click on the retry button: the handler, then React re-renders.\<close>

definition click_retry :: "bool \<Rightarrow> (nat \<Rightarrow> bool) \<Rightarrow> closure \<Rightarrow> component \<Rightarrow> closure \<times> component" where
  "click_retry apiKey stop_throws c s = rerender apiKey stop_throws c (handleManualRetry s)"

subsection \<open>SenseiCodeGuardian (file VoiceCoder.tsx, lines 596-652)\<close>

record guardian =
  recoveryAttempts :: nat
  lastErrorTime :: int

definition MAX_RECOVERIES :: nat where
  "MAX_RECOVERIES = 5"

text \<open>\<open>now\<close> is \<open>Date.now()\<close>, in milliseconds.\<close>

definition shouldAttemptRecovery :: "int \<Rightarrow> guardian \<Rightarrow> bool \<times> guardian" where
  "shouldAttemptRecovery now g =
     (let g1 = (if now - lastErrorTime g > 60000 then g\<lparr> recoveryAttempts := 0 \<rparr> else g);
          g2 = g1\<lparr> lastErrorTime := now \<rparr>
      in (recoveryAttempts g2 < MAX_RECOVERIES, g2))"

definition recordRecovery :: "guardian \<Rightarrow> guardian" where
  "recordRecovery g = g\<lparr> recoveryAttempts := recoveryAttempts g + 1 \<rparr>"

text \<open>
  \<open>GuardianAgent.componentDidCatch\<close> (file RepoExplainer.tsx, lines 193-206): a recovery
  is recorded when the guardian allows one; the result tells whether one was.
\<close>

definition componentDidCatch :: "int \<Rightarrow> guardian \<Rightarrow> bool \<times> guardian" where
  "componentDidCatch now g =
     (case shouldAttemptRecovery now g of
        (ok, g1) \<Rightarrow> if ok then (True, recordRecovery g1) else (False, g1))"

subsection \<open>The component as mounted\<close>

text \<open>The initial values of the \<open>useState\<close> and \<open>useRef\<close> hooks (LiveSensei lines 61-80).\<close>

definition initial_component :: component where
  "initial_component =
     \<lparr> connected_st = False, status = ''Initializing Sensei...'', error = None,
       retryCount = 0, currentResource = None, currentQuestion = None,
       selectedOption = None, connectedRef = False, inputContextRef = None,
       outputContextRef = None, streamRef = None, nextStartTimeRef = 0, sourcesRef = [],
       nodes_created = 0, audio_log = [], live_tracks = [], getUserMedia_calls = 0,
       channel = None, tool_responses = [], progress_updates = [], timers = [] \<rparr>"

text \<open>The closure of the first effect run, for a lesson without exam or repository context.\<close>

definition initial_closure :: closure where
  "initial_closure =
     \<lparr> mounted = True, retryCount_seen = 0, cleanupSession = False,
       examContext = False, repoContext = False \<rparr>"

subsection \<open>Environments used in the examples\<close>

text \<open>A browser in which \<open>stop()\<close> never throws.\<close>

definition no_throw :: "nat \<Rightarrow> bool" where
  "no_throw k = False"

text \<open>A browser in which \<open>stop()\<close> always throws.\<close>

definition all_throw :: "nat \<Rightarrow> bool" where
  "all_throw k = True"

text \<open>An \<open>onProgressUpdate\<close> that always returns, and one that always throws.\<close>

definition callback_returns :: "args option \<Rightarrow> bool" where
  "callback_returns a = True"

definition callback_throws :: "args option \<Rightarrow> bool" where
  "callback_throws a = False"

text \<open>Every payload decodes to a buffer of a quarter of a second.\<close>

definition quarter_second :: "string \<Rightarrow> real" where
  "quarter_second b = 1 / 4"

text \<open>A component whose output context exists and that has two chunks scheduled.\<close>

definition two_chunks :: component where
  "two_chunks =
     schedule_all [(0, 1 / 4), (1 / 10, 1 / 4)]
       (initial_component\<lparr> outputContextRef := Some CtxRunning \<rparr>)"

definition interrupted_message :: server_message where
  "interrupted_message = \<lparr> toolCall = None, audioData = None, interrupted = True \<rparr>"

text \<open>What identifies a tool result and a tool call: the id and the name.\<close>

definition response_key :: "function_response \<Rightarrow> string \<times> string" where
  "response_key r = (fr_id r, fr_name r)"

definition call_key :: "function_call \<Rightarrow> string \<times> string" where
  "call_key fc = (fc_id fc, fc_name fc)"

text \<open>The names the dispatchers have a branch for.\<close>

definition handled_LiveSensei :: "function_call \<Rightarrow> bool" where
  "handled_LiveSensei fc = (fc_name fc = ''update_progress'' \<or> fc_name fc = ''generate_resource'')"

definition handled_OralEvaluator :: "function_call \<Rightarrow> bool" where
  "handled_OralEvaluator fc = (fc_name fc = ''display_question'')"

definition unknown_call :: function_call where
  "unknown_call = \<lparr> fc_id = ''call-1'', fc_name = ''set_topic'', fc_args = None \<rparr>"

definition progress_call :: function_call where
  "progress_call =
     \<lparr> fc_id = ''call-2'', fc_name = ''update_progress'',
       fc_args = Some [(''subtopic'', ''loops''), (''percentage'', ''40'')] \<rparr>"

definition question_call :: function_call where
  "question_call =
     \<lparr> fc_id = ''call-3'', fc_name = ''display_question'',
       fc_args = Some [(''question'', ''What is a loop?'')] \<rparr>"

definition tool_message :: "function_call list \<Rightarrow> server_message" where
  "tool_message fcs = \<lparr> toolCall = Some fcs, audioData = None, interrupted = False \<rparr>"


text \<open>The rejection of \<open>getUserMedia\<close> when the user blocks the microphone.\<close>

definition NotAllowedError :: js_error where
  "NotAllowedError =
     \<lparr> err_name = ''NotAllowedError'', err_message = ''Permission denied'',
       err_string = ''NotAllowedError: Permission denied'' \<rparr>"

text \<open>The first mount, with the microphone blocked by the user.\<close>

definition mic_denied :: "closure \<times> component" where
  "mic_denied =
     (case run_effect True initial_closure initial_component of
        (c, s) \<Rightarrow> startSession_resume (Rejected NotAllowedError) None c s)"

text \<open>The first mount, with the microphone granted (stream 0) and the channel open.\<close>

definition live_session :: "closure \<times> component" where
  "live_session =
     (case run_effect True initial_closure initial_component of
        (c, s) \<Rightarrow>
          (case startSession_resume (Granted 0) None c s of
             (c1, s1) \<Rightarrow> (c1, onopen_LiveSensei c1 s1)))"


text \<open>
  One round of automatic reconnection in LiveSensei: the channel reports \<open>errStr\<close>;
  when that set a retry timer, the timer fires, React re-renders, the microphone is
  granted again and the channel is set up anew. Otherwise the session stays as the
  error handler left it.
\<close>

definition reconnect_round :: "string \<Rightarrow> closure \<times> component \<Rightarrow> closure \<times> component" where
  "reconnect_round errStr cs =
     (case cs of (c, s) \<Rightarrow>
        (let s1 = onerror_LiveSensei c errStr s
         in if length (timers s1) = length (timers s) then (c, s1)
            else (case rerender True no_throw c (fire_timer (length (timers s)) s1) of
                    (c2, s2) \<Rightarrow>
                      startSession_resume (Granted (getUserMedia_calls s2)) None c2 s2)))"

subsection \<open>When a tool handler returns\<close>

text \<open>
  The handler of a call returns normally unless, in a mounted LiveSensei session,
  \<open>onProgressUpdate\<close> throws for \<open>update_progress\<close> or the arguments are missing for
  \<open>generate_resource\<close> (the read of \<open>args.type\<close> throws); in OralEvaluator unless the
  arguments are missing for \<open>display_question\<close> (the destructuring throws).
\<close>

definition returns_LiveSensei :: "closure \<Rightarrow> (args option \<Rightarrow> bool) \<Rightarrow> function_call \<Rightarrow> bool" where
  "returns_LiveSensei c cb fc =
     (if fc_name fc = ''update_progress'' then (if mounted c then cb (fc_args fc) else True)
      else if fc_name fc = ''generate_resource''
      then (if mounted c then fc_args fc \<noteq> None else True)
      else True)"

definition returns_OralEvaluator :: "function_call \<Rightarrow> bool" where
  "returns_OralEvaluator fc =
     (if fc_name fc = ''display_question'' then fc_args fc \<noteq> None else True)"

definition resource_call_without_args :: function_call where
  "resource_call_without_args =
     \<lparr> fc_id = ''call-4'', fc_name = ''generate_resource'', fc_args = None \<rparr>"

subsection \<open>Time passing\<close>

text \<open>
  \<open>ms\<close> milliseconds pass without any event from the channel or the user: the retry
  timers that are due fire, each with \<open>setRetryCount(c => c + 1)\<close>, and the others come
  closer. No other code of the session reads a clock.
\<close>

definition elapse :: "real \<Rightarrow> component \<Rightarrow> component" where
  "elapse ms s =
     s\<lparr> timers := map (\<lambda>d. d - ms) (filter (\<lambda>d. ms < d) (timers s)),
        retryCount := retryCount s + length (filter (\<lambda>d. d \<le> ms) (timers s)) \<rparr>"

subsection \<open>Exit paths of a session start\<close>




text \<open>The live session after two rounds of reconnection on "Network error".\<close>

definition two_retries :: "closure \<times> component" where
  "two_retries = (reconnect_round ''Network error'' ^^ 2) live_session"

subsection \<open>PCM codec\<close>

text \<open>
  Modelled from the spec: the PCM codec of \<open>services/audio-utils\<close> (\<open>createPcmBlob\<close>,
  \<open>decodeAudioData\<close>), whose source is not part of the files at hand. The specification
  fixes a linear scaling to signed 16-bit integers with clamping, a little-endian byte
  encoding, a decoder that is the exact inverse, and a \<open>DecodeError\<close> on input of odd
  length. It leaves open the scale factor and how a scaled sample is rounded to an
  integer, so both are parameters here: \<open>K\<close> is the scale factor and \<open>rnd\<close> the
  rounding. Samples are reals.
\<close>

type_synonym byte = "8 word"

datatype codec_error = DecodeError

record audio_buffer =
  samples :: "real list"
  sampleRate :: real
  channelCount :: nat

text \<open>Modelled from the spec: clamping to the range of a signed 16-bit integer.\<close>

definition clamp_int16 :: "int \<Rightarrow> int" where
  "clamp_int16 v = max (- 32768) (min 32767 v)"

text \<open>Modelled from the spec: one sample, scaled linearly, rounded and clamped.\<close>

definition encode_sample :: "(real \<Rightarrow> int) \<Rightarrow> real \<Rightarrow> real \<Rightarrow> int" where
  "encode_sample rnd K x = clamp_int16 (rnd (x * K))"

text \<open>Modelled from the spec: a signed 16-bit integer as two bytes, low byte first.\<close>

definition int16_bytes :: "int \<Rightarrow> byte list" where
  "int16_bytes v = [word_of_int v, word_of_int (v div 256)]"

definition bytes_int16 :: "byte \<Rightarrow> byte \<Rightarrow> int" where
  "bytes_int16 lo hi =
     (let u = uint lo + 256 * uint hi in if 32768 \<le> u then u - 65536 else u)"

text \<open>Modelled from the spec: \<open>encode\<close>.\<close>

definition encode :: "(real \<Rightarrow> int) \<Rightarrow> real \<Rightarrow> real list \<Rightarrow> byte list" where
  "encode rnd K xs = concat (map (\<lambda>x. int16_bytes (encode_sample rnd K x)) xs)"

text \<open>Modelled from the spec: the 16-bit integers of a byte sequence; none for an odd length.\<close>

fun int16s :: "byte list \<Rightarrow> int list option" where
  "int16s [] = Some []"
| "int16s [b] = None"
| "int16s (lo # hi # bs) = map_option ((#) (bytes_int16 lo hi)) (int16s bs)"

text \<open>
  Modelled from the spec: \<open>decode\<close>, the inverse of the scaling, with the buffer tagged
  by sample rate and channel count.
\<close>

definition decode :: "real \<Rightarrow> byte list \<Rightarrow> real \<Rightarrow> nat \<Rightarrow> codec_error + audio_buffer" where
  "decode K bs rate channels =
     (case int16s bs of
        None \<Rightarrow> Inl DecodeError
      | Some vs \<Rightarrow>
          Inr \<lparr> samples = map (\<lambda>v. real_of_int v / K) vs, sampleRate = rate,
                channelCount = channels \<rparr>)"

text \<open>Rounding towards minus infinity, for the examples.\<close>

definition round_down :: "real \<Rightarrow> int" where
  "round_down y = \<lfloor>y\<rfloor>"

section \<open>Playback scheduling is gapless\<close>

lemma schedule_buffer_log:
  "audio_log (schedule_buffer now d s)
     = audio_log s @ [Start (nodes_created s) (max now (nextStartTimeRef s)) d]"
  by (simp add: schedule_buffer_def Let_def max_def)

lemma schedule_buffer_offset:
  "nextStartTimeRef (schedule_buffer now d s) = max now (nextStartTimeRef s) + d"
  by (simp add: schedule_buffer_def Let_def max_def)

lemma start_times_append: "start_times (xs @ ys) = start_times xs @ start_times ys"
  by (induction xs rule: start_times.induct) simp_all

lemma schedule_all_refines:
  "start_times (audio_log (schedule_all cs s))
     = start_times (audio_log s) @ spec_starts (nextStartTimeRef s) cs
   \<and> nextStartTimeRef (schedule_all cs s) = spec_offset (nextStartTimeRef s) cs"
proof (induction cs arbitrary: s)
  case Nil
  show ?case by simp
next
  case (Cons c cs)
  obtain now d where c: "c = (now, d)" by (cases c)
  show ?case
    using Cons.IH [of "schedule_buffer now d s"]
    by (simp add: c schedule_buffer_log schedule_buffer_offset start_times_append)
qed

lemma spec_starts_lower:
  "\<forall>c \<in> set cs. 0 \<le> snd c \<Longrightarrow> x \<in> set (spec_starts off cs) \<Longrightarrow> off \<le> x"
proof (induction cs arbitrary: off)
  case Nil
  then show ?case by simp
next
  case (Cons c cs)
  obtain now d where c: "c = (now, d)" by (cases c)
  from Cons.prems have d: "0 \<le> d" and rest: "\<forall>c \<in> set cs. 0 \<le> snd c"
    by (simp_all add: c)
  from Cons.prems(2) consider "x = max now off" | "x \<in> set (spec_starts (max now off + d) cs)"
    by (auto simp: c)
  then show ?case
  proof cases
    case 1
    then show ?thesis by simp
  next
    case 2
    from Cons.IH [OF rest 2] have "max now off + d \<le> x" .
    moreover have "off \<le> max now off" by simp
    ultimately show ?thesis using d by linarith
  qed
qed

lemma spec_starts_sorted:
  "\<forall>c \<in> set cs. 0 \<le> snd c \<Longrightarrow> sorted (spec_starts off cs)"
proof (induction cs arbitrary: off)
  case Nil
  show ?case by simp
next
  case (Cons c cs)
  obtain now d where c: "c = (now, d)" by (cases c)
  from Cons.prems have d: "0 \<le> d" and rest: "\<forall>c \<in> set cs. 0 \<le> snd c"
    by (simp_all add: c)
  have low: "\<forall>x \<in> set (spec_starts (max now off + d) cs). max now off \<le> x"
  proof
    fix x assume "x \<in> set (spec_starts (max now off + d) cs)"
    from spec_starts_lower [OF rest this] have "max now off + d \<le> x" .
    with d show "max now off \<le> x" by linarith
  qed
  have "sorted (max now off # spec_starts (max now off + d) cs)"
    using low Cons.IH [OF rest, of "max now off + d"] by (simp only: sorted_simps)
  then show ?case by (simp only: c spec_starts.simps)
qed

lemma spec_starts_gapless:
  "Suc i < length cs \<Longrightarrow> fst (cs ! Suc i) \<le> spec_starts off cs ! i + snd (cs ! i)
   \<Longrightarrow> spec_starts off cs ! Suc i = spec_starts off cs ! i + snd (cs ! i)"
proof (induction i arbitrary: off cs)
  case 0
  then obtain now d now' d' cs' where cs: "cs = (now, d) # (now', d') # cs'"
    by (cases cs; cases "tl cs") auto
  with 0 show ?case by (simp add: max_def)
next
  case (Suc i)
  then obtain now d cs' where cs: "cs = (now, d) # cs'" by (cases cs) auto
  with Suc.prems Suc.IH [of cs' "max now off + d"] show ?case by simp
qed

text \<open>
  C1. For a run of the scheduler over chunks with non-negative durations, the start
  times handed to the audio output are those of the specification: each chunk starts
  at the larger of the clock reading and the running offset, and the offset then
  advances by the chunk's duration. The start times are non-decreasing, and a chunk
  that is scheduled no later than the end of the previous one starts exactly at the
  previous start plus the previous duration.
\<close>

theorem playback_schedule_gapless:
  assumes "\<forall>c \<in> set cs. 0 \<le> snd c"
  shows "start_times (audio_log (schedule_all cs s))
           = start_times (audio_log s) @ spec_starts (nextStartTimeRef s) cs
       \<and> nextStartTimeRef (schedule_all cs s) = spec_offset (nextStartTimeRef s) cs
       \<and> sorted (spec_starts (nextStartTimeRef s) cs)
       \<and> (\<forall>i. Suc i < length cs
             \<and> fst (cs ! Suc i) \<le> spec_starts (nextStartTimeRef s) cs ! i + snd (cs ! i)
           \<longrightarrow> spec_starts (nextStartTimeRef s) cs ! Suc i
                 = spec_starts (nextStartTimeRef s) cs ! i + snd (cs ! i))"
  using schedule_all_refines [of cs s] spec_starts_sorted [OF assms] spec_starts_gapless
  by blast

text \<open>
  Two chunks of 250 ms scheduled at clock readings 0 and 0.1: the second starts at
  0.25, where the first ends.
\<close>

theorem playback_schedule_gapless_witness:
  "0 \<le> snd (0 :: real, 1 / 4 :: real) \<and> 0 \<le> snd (1 / 10 :: real, 1 / 4 :: real)
   \<and> fst (1 / 10 :: real, 1 / 4 :: real) \<le> 0 + snd (0 :: real, 1 / 4 :: real)
   \<and> start_times (audio_log (schedule_all [(0, 1 / 4), (1 / 10, 1 / 4)] initial_component))
       = [0, 1 / 4]
   \<and> nextStartTimeRef (schedule_all [(0, 1 / 4), (1 / 10, 1 / 4)] initial_component) = 1 / 2"
  using playback_schedule_gapless [of "[(0, 1 / 4), (1 / 10, 1 / 4)]" initial_component]
  by (simp add: initial_component_def)

section \<open>The example sessions, evaluated\<close>

lemma live_session_eval:
  "live_session =
   (\<lparr>mounted = True, retryCount_seen = 0, cleanupSession = True,
     examContext = False, repoContext = False\<rparr>,
  \<lparr>connected_st = True, status = ''Sensei is Live'', error = None,
     retryCount = 0, currentResource = None, currentQuestion = None,
     selectedOption = None, connectedRef = True,
     inputContextRef = Some CtxRunning, outputContextRef = Some CtxRunning,
     streamRef = Some 0, nextStartTimeRef = 0, sourcesRef = [],
     nodes_created = 0, audio_log = [], live_tracks = [0],
     getUserMedia_calls = 1, channel = Some ChanLive, tool_responses = [],
     progress_updates = [], timers = []\<rparr>)"
  by (simp add: live_session_def run_effect_def initial_closure_def initial_component_def
      startSession_begin_def startSession_resume_def startSession_setup_def
      onopen_LiveSensei_def Let_def)


lemma mic_denied_eval:
  "mic_denied =
  (\<lparr>mounted = True, retryCount_seen = 0, cleanupSession = False,
     examContext = False, repoContext = False\<rparr>,
  \<lparr>connected_st = False, status = ''Initializing Sensei...'',
     error = Some ''MICROPHONE_DENIED'', retryCount = 0,
     currentResource = None, currentQuestion = None, selectedOption = None,
     connectedRef = False, inputContextRef = None, outputContextRef = None,
     streamRef = None, nextStartTimeRef = 0, sourcesRef = [],
     nodes_created = 0, audio_log = [], live_tracks = [],
     getUserMedia_calls = 1, channel = None, tool_responses = [],
     progress_updates = [], timers = []\<rparr>)"
  by (simp add: mic_denied_def run_effect_def initial_closure_def initial_component_def
      startSession_begin_def startSession_resume_def startSession_catch_def new_Error_def
      permission_failure_def NotAllowedError_def Let_def)

section \<open>Barge-in\<close>

lemma forEach_try_stop:
  "forEach (\<lambda>k. try_catch_ignore (source_stop stop_throws k)) ks s
     = Returned (s\<lparr> audio_log := audio_log s @ map Stop (filter (\<lambda>k. \<not> stop_throws k) ks) \<rparr>)"
proof (induction ks arbitrary: s)
  case Nil
  show ?case by simp
next
  case (Cons k ks)
  define s1 where "s1 = (if stop_throws k then s else s\<lparr> audio_log := audio_log s @ [Stop k] \<rparr>)"
  have step: "try_catch_ignore (source_stop stop_throws k) s = Returned s1"
    by (simp add: try_catch_ignore_def source_stop_def s1_def)
  have "forEach (\<lambda>k. try_catch_ignore (source_stop stop_throws k)) (k # ks) s
          = forEach (\<lambda>k. try_catch_ignore (source_stop stop_throws k)) ks s1"
    by (simp only: forEach.simps step then_do_def outcome.case)
  also have "\<dots> = Returned (s1\<lparr> audio_log := audio_log s1
                      @ map Stop (filter (\<lambda>k. \<not> stop_throws k) ks) \<rparr>)"
    by (rule Cons.IH)
  also have "\<dots> = Returned (s\<lparr> audio_log := audio_log s
                      @ map Stop (filter (\<lambda>k. \<not> stop_throws k) (k # ks)) \<rparr>)"
    by (simp add: s1_def)
  finally show ?case .
qed

lemma stop_sources_Returned:
  "stop_sources stop_throws s
     = Returned (s\<lparr> audio_log := audio_log s
                     @ map Stop (filter (\<lambda>k. \<not> stop_throws k) (sourcesRef s)) \<rparr>)"
  by (simp add: stop_sources_def forEach_try_stop)

lemma state_of_stop_sources:
  "state_of (stop_sources stop_throws s)
     = s\<lparr> audio_log := audio_log s
                @ map Stop (filter (\<lambda>k. \<not> stop_throws k) (sourcesRef s)) \<rparr>"
  by (simp add: stop_sources_Returned state_of_def)

lemma handle_interrupted_Returned:
  "handle_interrupted stop_throws s
     = Returned (s\<lparr> audio_log := audio_log s
                     @ map Stop (filter (\<lambda>k. \<not> stop_throws k) (sourcesRef s)),
                   sourcesRef := [], nextStartTimeRef := 0 \<rparr>)"
  by (simp add: handle_interrupted_def stop_sources_Returned then_do_def)

lemma two_chunks_eval:
  "two_chunks = initial_component
     \<lparr> outputContextRef := Some CtxRunning, nextStartTimeRef := 1 / 2, sourcesRef := [0, 1],
       nodes_created := 2, audio_log := [Start 0 0 (1 / 4), Start 1 (1 / 4) (1 / 4)] \<rparr>"
  by (simp add: two_chunks_def schedule_buffer_def initial_component_def Let_def)

text \<open>
  C2 (as amended). In LiveSensei, VoiceCoder and GoalCollector the handling of an
  inbound \<open>interrupted\<close> signal never throws, whatever \<open>stop()\<close> does: it calls
  \<open>stop()\<close> on every source in \<open>sourcesRef\<close>, empties the set and resets the playback
  offset to 0 (not to the current time). It is idempotent, and the next chunk scheduled
  at a clock reading \<open>t \<ge> 0\<close> starts at \<open>t\<close>.
\<close>

theorem interrupted_clears_playback:
  "\<exists>s'. handle_interrupted stop_throws s = Returned s'
      \<and> onmessage_LiveSensei c cb decodeAudioData stop_throws now interrupted_message s = Returned s'
      \<and> sourcesRef s' = [] \<and> nextStartTimeRef s' = 0
      \<and> (\<forall>k \<in> set (sourcesRef s). \<not> stop_throws k \<longrightarrow> Stop k \<in> set (audio_log s'))
      \<and> handle_interrupted stop_throws s' = Returned s'
      \<and> (\<forall>t d. 0 \<le> t \<longrightarrow>
            audio_log (schedule_buffer t d s') = audio_log s' @ [Start (nodes_created s') t d])"
  by (simp add: handle_interrupted_Returned schedule_buffer_def Let_def
        onmessage_LiveSensei_def interrupted_message_def then_do_def handle_audio_def)

text \<open>With two chunks outstanding, both are stopped and the offset is 0.\<close>

theorem interrupted_clears_playback_witness:
  "sourcesRef two_chunks = [0, 1] \<and> \<not> no_throw 0 \<and> \<not> no_throw 1
   \<and> Stop 0 \<in> set (audio_log (state_of (handle_interrupted no_throw two_chunks)))
   \<and> Stop 1 \<in> set (audio_log (state_of (handle_interrupted no_throw two_chunks)))
   \<and> sourcesRef (state_of (handle_interrupted no_throw two_chunks)) = []
   \<and> nextStartTimeRef (state_of (handle_interrupted no_throw two_chunks)) = 0"
proof -
  from interrupted_clears_playback [of no_throw two_chunks] obtain s' where
    r: "handle_interrupted no_throw two_chunks = Returned s'"
    and e: "sourcesRef s' = []" and z: "nextStartTimeRef s' = 0"
    and st: "\<forall>k \<in> set (sourcesRef two_chunks). \<not> no_throw k \<longrightarrow> Stop k \<in> set (audio_log s')"
    by blast
  have src: "sourcesRef two_chunks = [0, 1]"
    by (simp add: two_chunks_eval)
  from st src have "Stop 0 \<in> set (audio_log s')" and "Stop 1 \<in> set (audio_log s')"
    by (simp_all add: no_throw_def)
  with r e z src show ?thesis
    by (simp add: state_of_def no_throw_def)
qed

text \<open>
  The claim as stated fails: at clock reading 5 the offset after the interrupt is 0,
  not 5; and OralEvaluator, whose handler has no \<open>interrupted\<close> branch, leaves the
  scheduled chunk in place and the offset at 7.
\<close>

theorem interrupted_offset_counterexample:
  "nextStartTimeRef (state_of (onmessage_LiveSensei (fst live_session) callback_returns
      quarter_second no_throw 5 interrupted_message (schedule_buffer 4 3 (snd live_session)))) \<noteq> 5
   \<and> sourcesRef (state_of (onmessage_OralEvaluator (fst live_session)
      quarter_second 5 interrupted_message (schedule_buffer 4 3 (snd live_session)))) = [0]
   \<and> nextStartTimeRef (state_of (onmessage_OralEvaluator (fst live_session)
      quarter_second 5 interrupted_message (schedule_buffer 4 3 (snd live_session)))) = 7"
  by (simp add: live_session_eval onmessage_LiveSensei_def onmessage_OralEvaluator_def
        interrupted_message_def then_do_def handle_audio_def handle_interrupted_Returned
        state_of_def schedule_buffer_def Let_def)

section \<open>Tool call dispatch\<close>

lemma toolCall_LiveSensei_handled:
  assumes "handled_LiveSensei fc"
    and "fc_name fc = ''update_progress'' \<and> mounted c \<longrightarrow> cb (fc_args fc)"
    and "fc_name fc = ''generate_resource'' \<and> mounted c \<longrightarrow> fc_args fc \<noteq> None"
  shows "\<exists>s'. toolCall_LiveSensei c cb fc s = Returned s'
           \<and> map response_key (tool_responses s') = map response_key (tool_responses s) @ [call_key fc]"
proof (cases "fc_name fc = ''update_progress''")
  case True
  with assms(2) show ?thesis
    by (simp add: toolCall_LiveSensei_def call_onProgressUpdate_def sendToolResponse_def
          then_do_def response_key_def call_key_def Let_def)
next
  case False
  with assms(1) have g: "fc_name fc = ''generate_resource''"
    by (simp add: handled_LiveSensei_def)
  show ?thesis
  proof (cases "mounted c")
    case True
    with assms(3) g obtain kv where "fc_args fc = Some kv" by auto
    with g True show ?thesis
      by (simp add: toolCall_LiveSensei_def show_resource_def sendToolResponse_def
            then_do_def response_key_def call_key_def)
  next
    case False
    with g show ?thesis
      by (simp add: toolCall_LiveSensei_def sendToolResponse_def
            then_do_def response_key_def call_key_def)
  qed
qed

lemma toolCall_LiveSensei_unhandled:
  "\<not> handled_LiveSensei fc \<Longrightarrow> toolCall_LiveSensei c cb fc s = Returned s"
  by (simp add: toolCall_LiveSensei_def handled_LiveSensei_def)

lemma toolCall_OralEvaluator_step:
  assumes "fc_name fc = ''display_question'' \<longrightarrow> fc_args fc \<noteq> None"
  shows "\<exists>s'. toolCall_OralEvaluator c fc s = Returned s'
           \<and> map response_key (tool_responses s')
               = map response_key (tool_responses s) @ map call_key (filter handled_OralEvaluator [fc])"
proof (cases "fc_name fc = ''display_question''")
  case True
  with assms obtain kv where "fc_args fc = Some kv" by auto
  with True show ?thesis
    by (simp add: toolCall_OralEvaluator_def handled_OralEvaluator_def sendToolResponse_def
          response_key_def call_key_def)
next
  case False
  then show ?thesis
    by (simp add: toolCall_OralEvaluator_def handled_OralEvaluator_def)
qed

lemma toolCall_LiveSensei_returns:
  assumes "returns_LiveSensei c cb fc"
  shows "\<exists>s'. toolCall_LiveSensei c cb fc s = Returned s'
           \<and> map response_key (tool_responses s')
               = map response_key (tool_responses s) @ map call_key (filter handled_LiveSensei [fc])"
proof (cases "handled_LiveSensei fc")
  case True
  from assms have h1: "fc_name fc = ''update_progress'' \<and> mounted c \<longrightarrow> cb (fc_args fc)"
    and h2: "fc_name fc = ''generate_resource'' \<and> mounted c \<longrightarrow> fc_args fc \<noteq> None"
    by (auto simp add: returns_LiveSensei_def split: if_splits)
  from toolCall_LiveSensei_handled [where fc = fc and c = c and cb = cb and s = s, OF True h1 h2] True
  show ?thesis by simp
next
  case False
  with toolCall_LiveSensei_unhandled [OF False, of c cb s] show ?thesis by simp
qed

lemma toolCall_LiveSensei_throws:
  assumes "\<not> returns_LiveSensei c cb fc"
  shows "\<exists>e s'. toolCall_LiveSensei c cb fc s = Threw e s' \<and> tool_responses s' = tool_responses s"
proof (cases "fc_name fc = ''update_progress''")
  case True
  with assms show ?thesis
    by (simp add: returns_LiveSensei_def toolCall_LiveSensei_def call_onProgressUpdate_def
          then_do_def Let_def split: if_splits)
next
  case False
  with assms show ?thesis
    by (simp add: returns_LiveSensei_def toolCall_LiveSensei_def show_resource_def
          then_do_def split: if_splits)
qed

lemma toolCall_LiveSensei_Returned_iff:
  "(\<exists>s'. toolCall_LiveSensei c cb fc s = Returned s') = returns_LiveSensei c cb fc"
proof (cases "returns_LiveSensei c cb fc")
  case True
  with toolCall_LiveSensei_returns [OF True, of s] show ?thesis by auto
next
  case False
  with toolCall_LiveSensei_throws [OF False, of s] show ?thesis by auto
qed

lemma forEach_toolCall_LiveSensei_prefix:
  "map response_key (tool_responses (state_of (forEach (toolCall_LiveSensei c cb) fcs s)))
     = map response_key (tool_responses s)
       @ map call_key (filter handled_LiveSensei (takeWhile (returns_LiveSensei c cb) fcs))
   \<and> ((\<exists>s'. forEach (toolCall_LiveSensei c cb) fcs s = Returned s')
        = (\<forall>fc \<in> set fcs. returns_LiveSensei c cb fc))"
proof (induction fcs arbitrary: s)
  case Nil
  show ?case by (simp add: state_of_def)
next
  case (Cons fc fcs)
  show ?case
  proof (cases "returns_LiveSensei c cb fc")
    case True
    from toolCall_LiveSensei_returns [OF True, of s] obtain s1 where
      s1: "toolCall_LiveSensei c cb fc s = Returned s1"
      and k1: "map response_key (tool_responses s1)
                 = map response_key (tool_responses s) @ map call_key (filter handled_LiveSensei [fc])"
      by blast
    have step: "forEach (toolCall_LiveSensei c cb) (fc # fcs) s
                  = forEach (toolCall_LiveSensei c cb) fcs s1"
      by (simp add: s1 then_do_def)
    from Cons.IH [of s1] k1 True show ?thesis
      by (simp only: step) simp
  next
    case False
    from toolCall_LiveSensei_throws [OF False, of s] obtain e s1 where
      s1: "toolCall_LiveSensei c cb fc s = Threw e s1"
      and k1: "tool_responses s1 = tool_responses s"
      by blast
    have step: "forEach (toolCall_LiveSensei c cb) (fc # fcs) s = Threw e s1"
      by (simp add: s1 then_do_def)
    from k1 False show ?thesis
      by (simp only: step) (simp add: state_of_def)
  qed
qed

lemma toolCall_OralEvaluator_returns:
  assumes "returns_OralEvaluator fc"
  shows "\<exists>s'. toolCall_OralEvaluator c fc s = Returned s'
           \<and> map response_key (tool_responses s')
               = map response_key (tool_responses s) @ map call_key (filter handled_OralEvaluator [fc])"
  using assms toolCall_OralEvaluator_step [of fc c s]
  by (simp add: returns_OralEvaluator_def split: if_splits)

lemma toolCall_OralEvaluator_throws:
  assumes "\<not> returns_OralEvaluator fc"
  shows "\<exists>e s'. toolCall_OralEvaluator c fc s = Threw e s' \<and> tool_responses s' = tool_responses s"
  using assms
  by (simp add: returns_OralEvaluator_def toolCall_OralEvaluator_def split: if_splits)

lemma toolCall_OralEvaluator_Returned_iff:
  "(\<exists>s'. toolCall_OralEvaluator c fc s = Returned s') = returns_OralEvaluator fc"
proof (cases "returns_OralEvaluator fc")
  case True
  with toolCall_OralEvaluator_returns [OF True, of c s] show ?thesis by auto
next
  case False
  with toolCall_OralEvaluator_throws [OF False, of c s] show ?thesis by auto
qed

lemma forEach_toolCall_OralEvaluator_prefix:
  "map response_key (tool_responses (state_of (forEach (toolCall_OralEvaluator c) fcs s)))
     = map response_key (tool_responses s)
       @ map call_key (filter handled_OralEvaluator (takeWhile returns_OralEvaluator fcs))
   \<and> ((\<exists>s'. forEach (toolCall_OralEvaluator c) fcs s = Returned s')
        = (\<forall>fc \<in> set fcs. returns_OralEvaluator fc))"
proof (induction fcs arbitrary: s)
  case Nil
  show ?case by (simp add: state_of_def)
next
  case (Cons fc fcs)
  show ?case
  proof (cases "returns_OralEvaluator fc")
    case True
    from toolCall_OralEvaluator_returns [OF True, of c s] obtain s1 where
      s1: "toolCall_OralEvaluator c fc s = Returned s1"
      and k1: "map response_key (tool_responses s1)
                 = map response_key (tool_responses s) @ map call_key (filter handled_OralEvaluator [fc])"
      by blast
    have step: "forEach (toolCall_OralEvaluator c) (fc # fcs) s
                  = forEach (toolCall_OralEvaluator c) fcs s1"
      by (simp add: s1 then_do_def)
    from Cons.IH [of s1] k1 True show ?thesis
      by (simp only: step) simp
  next
    case False
    from toolCall_OralEvaluator_throws [OF False, of c s] obtain e s1 where
      s1: "toolCall_OralEvaluator c fc s = Threw e s1"
      and k1: "tool_responses s1 = tool_responses s"
      by blast
    have step: "forEach (toolCall_OralEvaluator c) (fc # fcs) s = Threw e s1"
      by (simp add: s1 then_do_def)
    from k1 False show ?thesis
      by (simp only: step) (simp add: state_of_def)
  qed
qed

text \<open>
  C3 (as amended). The tool calls of one message are dispatched in order up to the
  first call whose handler throws. Up to there, every call with a name the dispatcher
  handles (\<open>update_progress\<close> and \<open>generate_resource\<close> in LiveSensei,
  \<open>display_question\<close> in OralEvaluator) gets exactly one tool result, carrying the
  call's id and name, in call order, and a call with any other name is skipped without
  a result. The call whose handler throws and every later call of the message get no
  result. The dispatch of a message returns normally exactly when no handler throws,
  and a single call returns exactly when its handler does.
\<close>

theorem tool_results_up_to_first_throw:
  "map response_key (tool_responses (state_of (forEach (toolCall_LiveSensei c cb) fcs s)))
     = map response_key (tool_responses s)
       @ map call_key (filter handled_LiveSensei (takeWhile (returns_LiveSensei c cb) fcs))
   \<and> ((\<exists>s'. forEach (toolCall_LiveSensei c cb) fcs s = Returned s')
        = (\<forall>fc \<in> set fcs. returns_LiveSensei c cb fc))
   \<and> ((\<exists>s'. toolCall_LiveSensei c cb fc s = Returned s') = returns_LiveSensei c cb fc)
   \<and> map response_key (tool_responses (state_of (forEach (toolCall_OralEvaluator c) gcs s)))
     = map response_key (tool_responses s)
       @ map call_key (filter handled_OralEvaluator (takeWhile returns_OralEvaluator gcs))
   \<and> ((\<exists>s'. forEach (toolCall_OralEvaluator c) gcs s = Returned s')
        = (\<forall>fc \<in> set gcs. returns_OralEvaluator fc))
   \<and> ((\<exists>s'. toolCall_OralEvaluator c fc s = Returned s') = returns_OralEvaluator fc)"
  using forEach_toolCall_LiveSensei_prefix [of c cb fcs s]
    forEach_toolCall_OralEvaluator_prefix [of c gcs s]
    toolCall_LiveSensei_Returned_iff [of c cb fc s] toolCall_OralEvaluator_Returned_iff [of c fc s]
  by blast

text \<open>
  A handled call before a \<open>generate_resource\<close> without arguments is answered; the
  same call after it is not.
\<close>

theorem tool_results_up_to_first_throw_witness:
  "returns_LiveSensei (fst live_session) callback_returns unknown_call
   \<and> returns_LiveSensei (fst live_session) callback_returns progress_call
   \<and> \<not> returns_LiveSensei (fst live_session) callback_returns resource_call_without_args
   \<and> map response_key (tool_responses (state_of
        (forEach (toolCall_LiveSensei (fst live_session) callback_returns)
           [unknown_call, progress_call, resource_call_without_args] (snd live_session))))
       = [(''call-2'', ''update_progress'')]
   \<and> map response_key (tool_responses (state_of
        (forEach (toolCall_LiveSensei (fst live_session) callback_returns)
           [resource_call_without_args, progress_call] (snd live_session))))
       = []
   \<and> map response_key (tool_responses (state_of
        (forEach (toolCall_OralEvaluator (fst live_session))
           [question_call, unknown_call] (snd live_session))))
       = [(''call-3'', ''display_question'')]"
proof -
  have r1: "returns_LiveSensei (fst live_session) callback_returns unknown_call"
    and r2: "returns_LiveSensei (fst live_session) callback_returns progress_call"
    and r3: "\<not> returns_LiveSensei (fst live_session) callback_returns resource_call_without_args"
    by (simp_all add: returns_LiveSensei_def live_session_eval unknown_call_def progress_call_def
          resource_call_without_args_def callback_returns_def)
  have q1: "returns_OralEvaluator question_call" and q2: "returns_OralEvaluator unknown_call"
    by (simp_all add: returns_OralEvaluator_def question_call_def unknown_call_def)
  have h: "\<not> handled_LiveSensei unknown_call" "handled_LiveSensei progress_call"
    "handled_OralEvaluator question_call" "\<not> handled_OralEvaluator unknown_call"
    by (simp_all add: handled_LiveSensei_def handled_OralEvaluator_def unknown_call_def
          progress_call_def question_call_def)
  have e: "tool_responses (snd live_session) = []"
    by (simp add: live_session_eval)
  have k: "call_key progress_call = (''call-2'', ''update_progress'')"
    "call_key question_call = (''call-3'', ''display_question'')"
    by (simp_all add: call_key_def progress_call_def question_call_def)
  from tool_results_up_to_first_throw [of "fst live_session" callback_returns
      "[unknown_call, progress_call, resource_call_without_args]" "snd live_session" _
      "[question_call, unknown_call]"]
    r1 r2 r3 q1 q2 h e k
  have a: "map response_key (tool_responses (state_of
        (forEach (toolCall_LiveSensei (fst live_session) callback_returns)
           [unknown_call, progress_call, resource_call_without_args] (snd live_session))))
       = [(''call-2'', ''update_progress'')]"
    and b: "map response_key (tool_responses (state_of
        (forEach (toolCall_OralEvaluator (fst live_session))
           [question_call, unknown_call] (snd live_session))))
       = [(''call-3'', ''display_question'')]"
    by simp_all
  from tool_results_up_to_first_throw [of "fst live_session" callback_returns
      "[resource_call_without_args, progress_call]" "snd live_session"]
    r3 e
  have c: "map response_key (tool_responses (state_of
        (forEach (toolCall_LiveSensei (fst live_session) callback_returns)
           [resource_call_without_args, progress_call] (snd live_session))))
       = []"
    by simp
  from r1 r2 r3 a b c show ?thesis by blast
qed

text \<open>
  The claim as stated fails: a call with a name the dispatcher does not know gets no
  result (in LiveSensei and in OralEvaluator), and neither does a call whose handler
  throws.
\<close>

theorem tool_result_counterexample:
  "tool_responses (state_of (onmessage_LiveSensei (fst live_session) callback_returns
      quarter_second no_throw 0 (tool_message [unknown_call]) (snd live_session))) = []
   \<and> tool_responses (state_of (onmessage_LiveSensei (fst live_session) callback_throws
      quarter_second no_throw 0 (tool_message [progress_call]) (snd live_session))) = []
   \<and> tool_responses (state_of (onmessage_OralEvaluator (fst live_session)
      quarter_second 0 (tool_message [unknown_call]) (snd live_session))) = []"
  by (simp add: live_session_eval onmessage_LiveSensei_def onmessage_OralEvaluator_def
        tool_message_def unknown_call_def progress_call_def toolCall_LiveSensei_def
        toolCall_OralEvaluator_def call_onProgressUpdate_def callback_throws_def
        then_do_def handle_audio_def state_of_def Let_def)

section \<open>The retry count on open\<close>

lemma cleanup_retryCount: "retryCount (snd (cleanup_LiveSensei stop_throws c s)) = retryCount s"
  by (simp add: cleanup_LiveSensei_def Let_def state_of_stop_sources stop_tracks_def
        split: option.splits)

lemma run_effect_seen: "retryCount_seen (fst (run_effect apiKey c s)) = retryCount s"
  by (simp add: run_effect_def Let_def)

lemma rerender_seen: "retryCount_seen (fst (rerender apiKey stop_throws c s)) = retryCount s"
proof (cases "retryCount s = retryCount_seen c")
  case True
  then show ?thesis by (simp add: rerender_def)
next
  case False
  obtain c1 s1 where cl: "cleanup_LiveSensei stop_throws c s = (c1, s1)"
    by (cases "cleanup_LiveSensei stop_throws c s")
  from cleanup_retryCount [of stop_throws c s] cl have "retryCount s1 = retryCount s" by simp
  with False cl show ?thesis by (simp add: rerender_def run_effect_seen)
qed

text \<open>
  C10. In each of the four components, the \<open>onopen\<close> callback of a session that is
  still mounted sets \<open>retryCount\<close> to 0 at once, whatever it was; the effect run that
  follows in LiveSensei therefore sees a retry count of 0, so errors are counted from
  the last successful open.
\<close>

theorem onopen_resets_retryCount:
  assumes "mounted c"
  shows "retryCount (onopen_LiveSensei c s) = 0 \<and> retryCount (onopen_VoiceCoder c s) = 0
       \<and> retryCount (onopen_OralEvaluator c s) = 0 \<and> retryCount (onopen_GoalCollector c s) = 0
       \<and> retryCount_seen (fst (rerender apiKey stop_throws c (onopen_LiveSensei c s))) = 0"
  using assms
  by (simp add: rerender_seen)
     (simp add: onopen_LiveSensei_def onopen_VoiceCoder_def onopen_OralEvaluator_def
        onopen_GoalCollector_def)

text \<open>After three retries, the open acknowledgment brings the count back to 0.\<close>

theorem onopen_resets_retryCount_witness:
  "mounted initial_closure
   \<and> retryCount (initial_component\<lparr> retryCount := 3 \<rparr>) = 3
   \<and> retryCount (onopen_LiveSensei initial_closure (initial_component\<lparr> retryCount := 3 \<rparr>)) = 0
   \<and> retryCount (onopen_OralEvaluator initial_closure (initial_component\<lparr> retryCount := 3 \<rparr>)) = 0"
  using onopen_resets_retryCount [of initial_closure "initial_component\<lparr> retryCount := 3 \<rparr>"]
  by (simp add: initial_closure_def)

section \<open>Microphone permission failures\<close>

text \<open>
  C4. When \<open>getUserMedia\<close> rejects with a permission failure (name NotAllowedError,
  PermissionDeniedError or SecurityError, or a message that contains, in any letter
  case, "permission denied", "denied" or "blocked"), a mounted session, at any retry
  count, ends with the error \<open>MICROPHONE_DENIED\<close> and nothing else changed: no retry
  timer is set and \<open>retryCount\<close> is as before. The same holds for the whole start
  from the head of \<open>startSession\<close>.
\<close>

theorem permission_failure_is_terminal:
  assumes "mounted c" and "permission_failure e"
  shows "startSession_resume (Rejected e) failure c s
           = (c, s\<lparr> error := Some ''MICROPHONE_DENIED'' \<rparr>)
       \<and> error (snd (startSession_resume (Rejected e) failure c (startSession_begin True c s)))
           = Some ''MICROPHONE_DENIED''
       \<and> timers (snd (startSession_resume (Rejected e) failure c (startSession_begin True c s)))
           = timers s
       \<and> retryCount (snd (startSession_resume (Rejected e) failure c (startSession_begin True c s)))
           = retryCount s"
  using assms
  by (simp add: startSession_resume_def startSession_catch_def new_Error_def
        startSession_begin_def Let_def)

text \<open>A blocked microphone at the third attempt.\<close>

theorem permission_failure_is_terminal_witness:
  "mounted (initial_closure\<lparr> retryCount_seen := 2 \<rparr>) \<and> permission_failure NotAllowedError
   \<and> permission_failure \<lparr> err_name = ''Error'', err_message = ''Access BLOCKED by policy'',
         err_string = ''Error: Access BLOCKED by policy'' \<rparr>
   \<and> startSession_resume (Rejected NotAllowedError) None (initial_closure\<lparr> retryCount_seen := 2 \<rparr>)
        (initial_component\<lparr> retryCount := 2 \<rparr>)
       = (initial_closure\<lparr> retryCount_seen := 2 \<rparr>,
          initial_component\<lparr> retryCount := 2, error := Some ''MICROPHONE_DENIED'' \<rparr>)"
proof -
  have m: "mounted (initial_closure\<lparr> retryCount_seen := 2 \<rparr>)"
    by (simp add: initial_closure_def)
  have p: "permission_failure NotAllowedError"
    by (simp add: permission_failure_def NotAllowedError_def)
  have p': "permission_failure \<lparr> err_name = ''Error'', err_message = ''Access BLOCKED by policy'',
         err_string = ''Error: Access BLOCKED by policy'' \<rparr>"
    by code_simp
  from permission_failure_is_terminal [OF m p, of None "initial_component\<lparr> retryCount := 2 \<rparr>"]
  have "startSession_resume (Rejected NotAllowedError) None (initial_closure\<lparr> retryCount_seen := 2 \<rparr>)
        (initial_component\<lparr> retryCount := 2 \<rparr>)
       = (initial_closure\<lparr> retryCount_seen := 2 \<rparr>,
          initial_component\<lparr> retryCount := 2, error := Some ''MICROPHONE_DENIED'' \<rparr>)"
    by blast
  with m p p' show ?thesis by blast
qed

section \<open>Cooldown of the recovery count\<close>

text \<open>
  C6 (as amended). The count that decays is the recovery count of SenseiCodeGuardian,
  which counts the recoveries from crashes of the React tree: when more than 60 seconds
  have passed since the last error it handled, the guardian resets the stored count to
  0 on the next error, which is then recorded as recovery 1, whatever the count was
  before the gap.
\<close>

theorem guardian_cooldown:
  assumes "now - lastErrorTime g > 60000"
  shows "recoveryAttempts (snd (shouldAttemptRecovery now g)) = 0
       \<and> componentDidCatch now g = (True, g\<lparr> recoveryAttempts := 1, lastErrorTime := now \<rparr>)"
  using assms
  by (simp add: shouldAttemptRecovery_def componentDidCatch_def recordRecovery_def
        MAX_RECOVERIES_def Let_def)

text \<open>Four recoveries on record, then an error 69 seconds after the last one.\<close>

theorem guardian_cooldown_witness:
  "(70000 :: int) - lastErrorTime \<lparr> recoveryAttempts = 4, lastErrorTime = 1000 \<rparr> > 60000
   \<and> componentDidCatch 70000 \<lparr> recoveryAttempts = 4, lastErrorTime = 1000 \<rparr>
       = (True, \<lparr> recoveryAttempts = 1, lastErrorTime = 70000 \<rparr>)"
  using guardian_cooldown [of 70000 "\<lparr> recoveryAttempts = 4, lastErrorTime = 1000 \<rparr>"]
  by simp

section \<open>Manual retry\<close>

text \<open>
  C8. The code at the failing input: the microphone was blocked on the first attempt,
  so the session shows \<open>MICROPHONE_DENIED\<close> with \<open>retryCount\<close> 0. The manual retry
  clears the error and sets \<open>retryCount\<close> to the value it already has; the effect is
  not run again, the closure is the old one and \<open>getUserMedia\<close> is not called.
\<close>

theorem manual_retry_without_restart:
  "error (snd mic_denied) = Some ''MICROPHONE_DENIED''
   \<and> click_retry True no_throw (fst mic_denied) (snd mic_denied)
       = (fst mic_denied, (snd mic_denied)\<lparr> error := None \<rparr>)
   \<and> getUserMedia_calls (snd (click_retry True no_throw (fst mic_denied) (snd mic_denied)))
       = getUserMedia_calls (snd mic_denied)"
  by (simp add: mic_denied_eval click_retry_def rerender_def handleManualRetry_def)

section \<open>Teardown\<close>




















section \<open>Retry and backoff\<close>

lemma pow_three_halves_4: "(3 / 2 :: real) ^ 4 = 81 / 16"
  by (simp add: power4_eq_xxxx)

lemma backoff_uncapped:
  assumes "n < 5"
  shows "backoff_delay n = 1000 * (3 / 2) ^ n \<and> backoff_delay n < 10000"
proof -
  from assms have "n \<le> 4" by simp
  then have "(3 / 2 :: real) ^ n \<le> (3 / 2) ^ 4"
    by (intro power_increasing) simp_all
  then have "1000 * (3 / 2 :: real) ^ n < 10000"
    by (simp add: pow_three_halves_4)
  then show ?thesis
    by (simp add: backoff_delay_def)
qed

lemma backoff_increasing:
  assumes "n < 4"
  shows "backoff_delay n < backoff_delay (Suc n)"
proof -
  from assms have a: "n < 5" and b: "Suc n < 5" by simp_all
  have "(3 / 2 :: real) ^ n < (3 / 2) ^ Suc n"
    by (intro power_strict_increasing) simp_all
  then have "1000 * (3 / 2 :: real) ^ n < 1000 * (3 / 2) ^ Suc n"
    by simp
  with backoff_uncapped [OF a] backoff_uncapped [OF b] show ?thesis
    by simp
qed

lemma onerror_transient:
  assumes "mounted c" and "\<not> model_unavailable e" and "isNetworkError_LiveSensei e"
  shows "retryCount_seen c < 5 \<longrightarrow>
           timers (onerror_LiveSensei c e s) = timers s @ [backoff_delay (retryCount_seen c)]
         \<and> error (onerror_LiveSensei c e s) = error s
         \<and> retryCount (fire_timer (length (timers s)) (onerror_LiveSensei c e s)) = retryCount s + 1"
    and "5 \<le> retryCount_seen c \<longrightarrow>
           timers (onerror_LiveSensei c e s) = timers s
         \<and> error (onerror_LiveSensei c e s) = Some ''Connection Lost. Please check network.''"
  using assms
  by (simp_all add: onerror_LiveSensei_def setTimeout_retry_def fire_timer_def Let_def)

lemma onerror_other:
  assumes "mounted c" and "\<not> model_unavailable e" and "\<not> isNetworkError_LiveSensei e"
  shows "retryCount_seen c < 3 \<longrightarrow>
           timers (onerror_LiveSensei c e s) = timers s @ [2000]
         \<and> error (onerror_LiveSensei c e s) = error s
         \<and> retryCount (fire_timer (length (timers s)) (onerror_LiveSensei c e s)) = retryCount s + 1"
    and "3 \<le> retryCount_seen c \<longrightarrow>
           timers (onerror_LiveSensei c e s) = timers s
         \<and> error (onerror_LiveSensei c e s) = Some ''Connection Lost. Please check network.''"
  using assms
  by (simp_all add: onerror_LiveSensei_def setTimeout_retry_def fire_timer_def Let_def)

lemma onerror_OralEvaluator_policy:
  assumes "mounted c"
  shows "isNetworkError_OralEvaluator x \<and> retryCount_seen c < 5 \<longrightarrow>
           timers (onerror_OralEvaluator c x s) = timers s @ [2000]
         \<and> error (onerror_OralEvaluator c x s) = error s"
    and "isNetworkError_OralEvaluator x \<and> 5 \<le> retryCount_seen c \<longrightarrow>
           timers (onerror_OralEvaluator c x s) = timers s
         \<and> error (onerror_OralEvaluator c x s)
             = Some ''Sensei is unable to connect. Please check your internet connection.''"
    and "\<not> isNetworkError_OralEvaluator x \<and> retryCount_seen c < 3 \<longrightarrow>
           timers (onerror_OralEvaluator c x s) = timers s @ [2000]
         \<and> error (onerror_OralEvaluator c x s) = error s"
    and "\<not> isNetworkError_OralEvaluator x \<and> 3 \<le> retryCount_seen c \<longrightarrow>
           timers (onerror_OralEvaluator c x s) = timers s
         \<and> error (onerror_OralEvaluator c x s)
             = Some ''Internal connection error. Please try again.''"
  using assms
  by (simp_all add: onerror_OralEvaluator_def setTimeout_retry_def Let_def)

lemma reconnect_round_step:
  assumes "mounted c" and "retryCount_seen c = n" and "retryCount s = n" and "timers s = []"
    and "error s = None" and "n < 5"
    and "isNetworkError_LiveSensei e" and "\<not> model_unavailable e"
  shows "\<exists>c' s'. reconnect_round e (c, s) = (c', s') \<and> mounted c' \<and> retryCount_seen c' = Suc n
           \<and> retryCount s' = Suc n \<and> timers s' = [] \<and> error s' = None"
  using assms
  by (simp add: reconnect_round_def onerror_LiveSensei_def setTimeout_retry_def fire_timer_def
        rerender_def cleanup_LiveSensei_def state_of_stop_sources run_effect_def
        startSession_begin_def startSession_resume_def startSession_setup_def stop_tracks_def
        Let_def split: option.splits)

lemma reconnect_rounds:
  assumes "isNetworkError_LiveSensei e" and "\<not> model_unavailable e"
  shows "n \<le> 5 \<Longrightarrow>
         \<exists>c s. (reconnect_round e ^^ n) live_session = (c, s) \<and> mounted c \<and> retryCount_seen c = n
           \<and> retryCount s = n \<and> timers s = [] \<and> error s = None"
proof (induction n)
  case 0
  show ?case by (simp add: live_session_eval)
next
  case (Suc n)
  then obtain c s where cs: "(reconnect_round e ^^ n) live_session = (c, s)"
    and inv: "mounted c" "retryCount_seen c = n" "retryCount s = n" "timers s = []" "error s = None"
    by auto
  from Suc.prems have "n < 5" by simp
  from reconnect_round_step [OF inv this assms] cs show ?case by simp
qed

lemma onerror_unavailable:
  assumes "mounted c" and "model_unavailable u"
  shows "timers (onerror_LiveSensei c u s) = timers s"
    and "error (onerror_LiveSensei c u s) = Some ''Voice Model Unavailable in Region.''"
  using assms
  by (simp_all add: onerror_LiveSensei_def Let_def)

text \<open>
  C5 (as amended). In a mounted LiveSensei session, an error with a model-unavailable
  marker ("not implemented", "not supported", "404") is terminal at once, at any retry
  count: it sets an error and no timer. A transient error (network, 503, internal)
  without such a marker sets, while the retry count seen is below 5, one retry timer
  with delay \<open>min(1000 * 1.5^n, 10000)\<close> ms and no error, and the timer increments
  \<open>retryCount\<close>; from 5 on it sets a terminal error and no timer. Any other error
  without such a marker gets a retry after 2000 ms below 3, and a terminal error from 3
  on. Below the ceiling the delays are uncapped and strictly increasing. Over
  consecutive rounds of transient errors from the live session, round \<open>n \<le> 5\<close> starts
  with retry count \<open>n\<close>, no pending timer and no error. OralEvaluator always retries
  after a fixed 2000 ms and has no model-unavailable test: its ceiling is 5 for the
  errors with one of its own markers ("Network error", "Failed to fetch", "Internal
  error occurred") and 3 for every other error, a 503 among them.
\<close>

theorem backoff_retry_policy:
  assumes "mounted c"
    and "isNetworkError_LiveSensei e" and "\<not> model_unavailable e"
    and "\<not> isNetworkError_LiveSensei e'" and "\<not> model_unavailable e'"
  shows "(retryCount_seen c < 5 \<longrightarrow>
            timers (onerror_LiveSensei c e s) = timers s @ [backoff_delay (retryCount_seen c)]
          \<and> error (onerror_LiveSensei c e s) = error s
          \<and> retryCount (fire_timer (length (timers s)) (onerror_LiveSensei c e s)) = retryCount s + 1)
       \<and> (5 \<le> retryCount_seen c \<longrightarrow>
            timers (onerror_LiveSensei c e s) = timers s
          \<and> error (onerror_LiveSensei c e s) = Some ''Connection Lost. Please check network.'')
       \<and> (retryCount_seen c < 3 \<longrightarrow>
            timers (onerror_LiveSensei c e' s) = timers s @ [2000]
          \<and> error (onerror_LiveSensei c e' s) = error s
          \<and> retryCount (fire_timer (length (timers s)) (onerror_LiveSensei c e' s)) = retryCount s + 1)
       \<and> (3 \<le> retryCount_seen c \<longrightarrow>
            timers (onerror_LiveSensei c e' s) = timers s
          \<and> error (onerror_LiveSensei c e' s) = Some ''Connection Lost. Please check network.'')
       \<and> (\<forall>n < 5. backoff_delay n = 1000 * (3 / 2) ^ n \<and> backoff_delay n < 10000)
       \<and> (\<forall>n < 4. backoff_delay n < backoff_delay (Suc n))
       \<and> (\<forall>n \<le> 5. mounted (fst ((reconnect_round e ^^ n) live_session))
             \<and> retryCount_seen (fst ((reconnect_round e ^^ n) live_session)) = n
             \<and> retryCount (snd ((reconnect_round e ^^ n) live_session)) = n
             \<and> timers (snd ((reconnect_round e ^^ n) live_session)) = []
             \<and> error (snd ((reconnect_round e ^^ n) live_session)) = None)
       \<and> (isNetworkError_OralEvaluator x \<and> retryCount_seen c < 5 \<longrightarrow>
            timers (onerror_OralEvaluator c x s) = timers s @ [2000]
          \<and> error (onerror_OralEvaluator c x s) = error s)
       \<and> (isNetworkError_OralEvaluator x \<and> 5 \<le> retryCount_seen c \<longrightarrow>
            timers (onerror_OralEvaluator c x s) = timers s
          \<and> error (onerror_OralEvaluator c x s)
              = Some ''Sensei is unable to connect. Please check your internet connection.'')
       \<and> (\<not> isNetworkError_OralEvaluator x \<and> retryCount_seen c < 3 \<longrightarrow>
            timers (onerror_OralEvaluator c x s) = timers s @ [2000]
          \<and> error (onerror_OralEvaluator c x s) = error s)
       \<and> (\<not> isNetworkError_OralEvaluator x \<and> 3 \<le> retryCount_seen c \<longrightarrow>
            timers (onerror_OralEvaluator c x s) = timers s
          \<and> error (onerror_OralEvaluator c x s)
              = Some ''Internal connection error. Please try again.'')
       \<and> (model_unavailable u \<longrightarrow>
            timers (onerror_LiveSensei c u s) = timers s
          \<and> error (onerror_LiveSensei c u s) = Some ''Voice Model Unavailable in Region.'')"
proof -
  have rounds: "\<forall>n \<le> 5. mounted (fst ((reconnect_round e ^^ n) live_session))
             \<and> retryCount_seen (fst ((reconnect_round e ^^ n) live_session)) = n
             \<and> retryCount (snd ((reconnect_round e ^^ n) live_session)) = n
             \<and> timers (snd ((reconnect_round e ^^ n) live_session)) = []
             \<and> error (snd ((reconnect_round e ^^ n) live_session)) = None"
  proof (intro allI impI)
    fix n :: nat assume "n \<le> 5"
    from reconnect_rounds [OF assms(2,3) this] show
      "mounted (fst ((reconnect_round e ^^ n) live_session))
             \<and> retryCount_seen (fst ((reconnect_round e ^^ n) live_session)) = n
             \<and> retryCount (snd ((reconnect_round e ^^ n) live_session)) = n
             \<and> timers (snd ((reconnect_round e ^^ n) live_session)) = []
             \<and> error (snd ((reconnect_round e ^^ n) live_session)) = None"
      by auto
  qed
  from onerror_transient [OF assms(1,3,2), of s] onerror_other [OF assms(1,5,4), of s]
    backoff_uncapped backoff_increasing rounds onerror_OralEvaluator_policy [OF assms(1), of x s]
    onerror_unavailable [OF assms(1), of u s]
  show ?thesis by blast
qed

text \<open>The first "Network error" of the live session is retried after one second.\<close>

theorem backoff_retry_policy_witness:
  "mounted (fst live_session) \<and> retryCount_seen (fst live_session) = 0
   \<and> isNetworkError_LiveSensei ''Network error'' \<and> \<not> model_unavailable ''Network error''
   \<and> \<not> isNetworkError_LiveSensei ''socket hang up'' \<and> \<not> model_unavailable ''socket hang up''
   \<and> timers (onerror_LiveSensei (fst live_session) ''Network error'' (snd live_session)) = [1000]
   \<and> timers (onerror_LiveSensei (fst live_session) ''socket hang up'' (snd live_session)) = [2000]
   \<and> retryCount (snd ((reconnect_round ''Network error'' ^^ 3) live_session)) = 3
   \<and> backoff_delay 0 < backoff_delay 1 \<and> backoff_delay 1 < backoff_delay 2
   \<and> model_unavailable ''Operation not supported''
   \<and> timers (onerror_LiveSensei (fst live_session) ''Operation not supported''
        (snd live_session)) = []
   \<and> error (onerror_LiveSensei (fst live_session) ''Operation not supported''
        (snd live_session)) = Some ''Voice Model Unavailable in Region.''
   \<and> isNetworkError_LiveSensei ''HTTP 503''
   \<and> error (onerror_OralEvaluator (fst live_session) ''HTTP 503'' (snd live_session)) = None
   \<and> timers (onerror_OralEvaluator (fst live_session) ''HTTP 503'' (snd live_session)) = [2000]"
proof -
  have m: "mounted (fst live_session)" and z: "retryCount_seen (fst live_session) = 0"
    and t: "timers (snd live_session) = []"
    by (simp_all add: live_session_eval)
  have n1: "isNetworkError_LiveSensei ''Network error''"
    by (simp add: isNetworkError_LiveSensei_def)
  have n2: "\<not> model_unavailable ''Network error''"
    by (simp add: model_unavailable_def)
  have o1: "\<not> isNetworkError_LiveSensei ''socket hang up''"
    by (simp add: isNetworkError_LiveSensei_def)
  have o2: "\<not> model_unavailable ''socket hang up''"
    by (simp add: model_unavailable_def)
  have b0: "backoff_delay 0 = 1000"
    by (simp add: backoff_delay_def)
  have u1: "model_unavailable ''Operation not supported''"
    by (simp add: model_unavailable_def)
  have x1: "isNetworkError_LiveSensei ''HTTP 503''"
    by (simp add: isNetworkError_LiveSensei_def)
  have x2: "\<not> isNetworkError_OralEvaluator ''HTTP 503''"
    by (simp add: isNetworkError_OralEvaluator_def)
  note P = backoff_retry_policy [OF m n1 n2 o1 o2, of "snd live_session" "''HTTP 503''"
      "''Operation not supported''"]
  from P u1 have v: "timers (onerror_LiveSensei (fst live_session) ''Operation not supported''
        (snd live_session)) = timers (snd live_session)"
    and w: "error (onerror_LiveSensei (fst live_session) ''Operation not supported''
        (snd live_session)) = Some ''Voice Model Unavailable in Region.''"
    by blast+
  from P x2 have y: "retryCount_seen (fst live_session) < 3 \<longrightarrow>
      timers (onerror_OralEvaluator (fst live_session) ''HTTP 503'' (snd live_session))
        = timers (snd live_session) @ [2000]
      \<and> error (onerror_OralEvaluator (fst live_session) ''HTTP 503'' (snd live_session))
        = error (snd live_session)"
    by blast
  have en: "error (snd live_session) = None"
    by (simp add: live_session_eval)
  from P have a: "retryCount_seen (fst live_session) < 5 \<longrightarrow>
      timers (onerror_LiveSensei (fst live_session) ''Network error'' (snd live_session))
        = timers (snd live_session) @ [backoff_delay (retryCount_seen (fst live_session))]"
    by blast
  from P have b: "retryCount_seen (fst live_session) < 3 \<longrightarrow>
      timers (onerror_LiveSensei (fst live_session) ''socket hang up'' (snd live_session))
        = timers (snd live_session) @ [2000]"
    by blast
  from P have r: "\<forall>n \<le> 5. retryCount (snd ((reconnect_round ''Network error'' ^^ n) live_session)) = n"
    by blast
  from P have i: "\<forall>n < 4. backoff_delay n < backoff_delay (Suc n)"
    by blast
  from a z t b0
  have "timers (onerror_LiveSensei (fst live_session) ''Network error'' (snd live_session)) = [1000]"
    by simp
  moreover from b z t
  have "timers (onerror_LiveSensei (fst live_session) ''socket hang up'' (snd live_session)) = [2000]"
    by simp
  moreover from r
  have "retryCount (snd ((reconnect_round ''Network error'' ^^ 3) live_session)) = 3"
    by simp
  moreover from i have "backoff_delay 0 < backoff_delay (Suc 0)"
    and "backoff_delay (Suc 0) < backoff_delay (Suc (Suc 0))"
    by simp_all
  then have "backoff_delay 0 < backoff_delay 1" and "backoff_delay 1 < backoff_delay 2"
    by (simp_all add: numeral_2_eq_2)
  ultimately
  have "timers (onerror_LiveSensei (fst live_session) ''Network error'' (snd live_session)) = [1000]"
    and "timers (onerror_LiveSensei (fst live_session) ''socket hang up'' (snd live_session)) = [2000]"
    and "retryCount (snd ((reconnect_round ''Network error'' ^^ 3) live_session)) = 3"
    and "backoff_delay 0 < backoff_delay 1" and "backoff_delay 1 < backoff_delay 2"
    by blast+
  moreover from v t
  have "timers (onerror_LiveSensei (fst live_session) ''Operation not supported''
        (snd live_session)) = []"
    by simp
  moreover from y z t en
  have "error (onerror_OralEvaluator (fst live_session) ''HTTP 503'' (snd live_session)) = None"
    and "timers (onerror_OralEvaluator (fst live_session) ''HTTP 503'' (snd live_session)) = [2000]"
    by simp_all
  ultimately show ?thesis
    using m z n1 n2 o1 o2 u1 w x1 by blast
qed

text \<open>
  The claim as stated fails: LiveSensei does not retry a "404" error, the first one is
  terminal; OralEvaluator retries the second transient error after 2000 ms, not after
  1500 ms; and at retry count 3 a 503 is retried by LiveSensei and terminal in
  OralEvaluator.
\<close>

theorem backoff_retry_counterexample:
  "\<not> isNetworkError_LiveSensei ''404 Not Found''
   \<and> retryCount_seen (fst live_session) = 0
   \<and> timers (onerror_LiveSensei (fst live_session) ''404 Not Found'' (snd live_session)) = []
   \<and> error (onerror_LiveSensei (fst live_session) ''404 Not Found'' (snd live_session))
       = Some ''Voice Model Unavailable in Region.''
   \<and> isNetworkError_OralEvaluator ''Network error''
   \<and> timers (onerror_OralEvaluator ((fst live_session)\<lparr> retryCount_seen := 1 \<rparr>) ''Network error''
        (snd live_session)) = [2000]
   \<and> min (1000 * (3 / 2) ^ 1) 10000 = (1500 :: real)
   \<and> timers (onerror_LiveSensei ((fst live_session)\<lparr> retryCount_seen := 3 \<rparr>) ''HTTP 503''
        (snd live_session)) = [3375]
   \<and> timers (onerror_OralEvaluator ((fst live_session)\<lparr> retryCount_seen := 3 \<rparr>) ''HTTP 503''
        (snd live_session)) = []
   \<and> error (onerror_OralEvaluator ((fst live_session)\<lparr> retryCount_seen := 3 \<rparr>) ''HTTP 503''
        (snd live_session)) = Some ''Internal connection error. Please try again.''"
  by (simp add: live_session_eval isNetworkError_LiveSensei_def isNetworkError_OralEvaluator_def
        onerror_LiveSensei_def onerror_OralEvaluator_def model_unavailable_def
        setTimeout_retry_def backoff_delay_def power3_eq_cube Let_def)

section \<open>The retry count of a session has no cooldown\<close>

lemma elapse_idle: "timers s = [] \<Longrightarrow> elapse ms s = s"
  by (simp add: elapse_def)

lemma transient_Network_error:
  "isNetworkError_LiveSensei ''Network error''" "\<not> model_unavailable ''Network error''"
  by (simp_all add: isNetworkError_LiveSensei_def model_unavailable_def)

lemma two_retries_state:
  "mounted (fst two_retries)" "retryCount_seen (fst two_retries) = 2"
  "retryCount (snd two_retries) = 2" "timers (snd two_retries) = []"
  "error (snd two_retries) = None"
proof -
  from reconnect_rounds [OF transient_Network_error, of 2]
  obtain c s where "(reconnect_round ''Network error'' ^^ 2) live_session = (c, s)"
    and "mounted c" "retryCount_seen c = 2" "retryCount s = 2" "timers s = []" "error s = None"
    by auto
  then show "mounted (fst two_retries)" "retryCount_seen (fst two_retries) = 2"
    "retryCount (snd two_retries) = 2" "timers (snd two_retries) = []"
    "error (snd two_retries) = None"
    by (simp_all add: two_retries_def)
qed

text \<open>
  The claim as stated fails for the retry count of a session: after two retries on
  "Network error" the count is 2 and no timer is pending; 61 seconds pass without an
  error and change nothing; the next "Network error" is retried after 2250 ms, the
  delay of the third attempt, and brings the count to 3, not to 1.
\<close>

theorem session_retry_count_counterexample:
  "retryCount (snd two_retries) = 2 \<and> timers (snd two_retries) = []
   \<and> elapse 61000 (snd two_retries) = snd two_retries
   \<and> timers (onerror_LiveSensei (fst two_retries) ''Network error'' (elapse 61000 (snd two_retries)))
       = [2250]
   \<and> retryCount (snd (reconnect_round ''Network error''
        (fst two_retries, elapse 61000 (snd two_retries)))) = 3"
proof -
  have idle: "elapse 61000 (snd two_retries) = snd two_retries"
    by (rule elapse_idle) (rule two_retries_state)
  have b: "backoff_delay 2 = 2250"
    by (simp add: backoff_delay_def power2_eq_square)
  from onerror_transient(1) [OF two_retries_state(1) transient_Network_error(2,1), of "snd two_retries"]
    two_retries_state b
  have t: "timers (onerror_LiveSensei (fst two_retries) ''Network error'' (snd two_retries)) = [2250]"
    by simp
  from reconnect_round_step [OF two_retries_state _ transient_Network_error]
  obtain c' s' where "reconnect_round ''Network error'' (fst two_retries, snd two_retries) = (c', s')"
    and "retryCount s' = Suc 2"
    by auto
  then have r: "retryCount (snd (reconnect_round ''Network error''
        (fst two_retries, snd two_retries))) = 3"
    by simp
  from idle t r two_retries_state show ?thesis by simp
qed

section \<open>PCM round trip\<close>

lemma clamp_int16_range: "- 32768 \<le> clamp_int16 v \<and> clamp_int16 v \<le> 32767"
  by (simp add: clamp_int16_def)

lemma bytes_int16_inverse:
  assumes "- 32768 \<le> v" and "v \<le> 32767"
  shows "bytes_int16 (word_of_int v) (word_of_int (v div 256)) = v"
proof -
  have u: "uint (word_of_int v :: byte) + 256 * uint (word_of_int (v div 256) :: byte) = v mod 65536"
  proof -
    have "uint (word_of_int v :: byte) = v mod 256"
      by (simp add: uint_word_of_int)
    moreover have "uint (word_of_int (v div 256) :: byte) = v div 256 mod 256"
      by (simp add: uint_word_of_int)
    moreover have "v mod 65536 = 256 * (v div 256 mod 256) + v mod 256"
      using zmod_zmult2_eq [of 256 v 256] by simp
    ultimately show ?thesis by simp
  qed
  show ?thesis
  proof (cases "0 \<le> v")
    case True
    with assms have "v mod 65536 = v" by simp
    with u True assms show ?thesis by (simp add: bytes_int16_def Let_def)
  next
    case False
    with assms have "(v + 65536) mod 65536 = v + 65536"
      by (intro mod_pos_pos_trivial) simp_all
    then have "v mod 65536 = v + 65536"
      by simp
    with u False assms show ?thesis by (simp add: bytes_int16_def Let_def)
  qed
qed

lemma int16s_encode:
  "int16s (encode rnd K xs) = Some (map (encode_sample rnd K) xs)"
proof (induction xs)
  case Nil
  show ?case by (simp add: encode_def)
next
  case (Cons x xs)
  have "bytes_int16 (word_of_int (encode_sample rnd K x)) (word_of_int (encode_sample rnd K x div 256))
          = encode_sample rnd K x"
    using clamp_int16_range [of "rnd (x * K)"]
    by (intro bytes_int16_inverse) (simp_all add: encode_sample_def)
  with Cons show ?case
    by (simp add: encode_def int16_bytes_def)
qed

lemma int16s_None: "(int16s bs = None) = odd (length bs)"
  by (induction bs rule: int16s.induct) simp_all

lemma encode_sample_close:
  assumes rnd: "\<forall>y. \<bar>real_of_int (rnd y) - y\<bar> < 1"
    and K: "0 < K" "K \<le> 32768" and x: "- 1 \<le> x" "x \<le> 1"
  shows "\<bar>real_of_int (encode_sample rnd K x) / K - x\<bar> \<le> 1 / K"
proof -
  define y where "y = x * K"
  from K x have ylo: "- 32768 \<le> y" and yhi: "y \<le> 32768"
  proof -
    from x K(1) have "(- 1) * K \<le> x * K" and "x * K \<le> 1 * K"
      by (intro mult_right_mono; simp)+
    with K(2) show "- 32768 \<le> y" and "y \<le> 32768" by (simp_all add: y_def)
  qed
  from rnd have r: "\<bar>real_of_int (rnd y) - y\<bar> < 1" by blast
  have "\<bar>real_of_int (clamp_int16 (rnd y)) - y\<bar> \<le> 1"
  proof -
    consider "rnd y > 32767" | "rnd y < - 32768" | "- 32768 \<le> rnd y \<and> rnd y \<le> 32767"
      by linarith
    then show ?thesis
    proof cases
      case 1
      then have c: "clamp_int16 (rnd y) = 32767" by (simp add: clamp_int16_def)
      from 1 have "real_of_int (rnd y) \<ge> 32768" by linarith
      with r have "y > 32767" by linarith
      with yhi c show ?thesis by simp
    next
      case 2
      then have "real_of_int (rnd y) \<le> - 32769" by linarith
      with r ylo show ?thesis by linarith
    next
      case 3
      then have "clamp_int16 (rnd y) = rnd y" by (simp add: clamp_int16_def)
      with r show ?thesis by simp
    qed
  qed
  then have "\<bar>real_of_int (encode_sample rnd K x) - x * K\<bar> \<le> 1"
    by (simp add: encode_sample_def y_def)
  moreover have "real_of_int (encode_sample rnd K x) / K - x
                   = (real_of_int (encode_sample rnd K x) - x * K) / K"
    using K(1) by (simp add: field_simps)
  ultimately show ?thesis
    using K(1) by (simp add: abs_divide divide_right_mono del: of_int_diff)
qed

lemma round_down_close: "\<forall>y. \<bar>real_of_int (round_down y) - y\<bar> < 1"
proof
  fix y :: real
  have "real_of_int \<lfloor>y\<rfloor> \<le> y" and "y < real_of_int \<lfloor>y\<rfloor> + 1"
    by linarith+
  then have "\<bar>real_of_int \<lfloor>y\<rfloor> - y\<bar> < 1"
    by linarith
  then show "\<bar>real_of_int (round_down y) - y\<bar> < 1"
    by (simp only: round_down_def)
qed

text \<open>
  C7. For a codec with a scale factor of 32767 or 32768 (or between) and any rounding
  to an integer less than 1 away: decoding the encoding of samples in \<open>[-1, 1]\<close> succeeds
  and gives as many samples, each within one 16-bit quantization step (1/32767) of the
  original, in a buffer tagged with the given rate and channel count; every encoded
  sample lies in the signed 16-bit range, and a sample that scales beyond the range is
  encoded as the bound, not wrapped; \<open>decode\<close> fails, with \<open>DecodeError\<close>, exactly on
  input of odd length.
\<close>

theorem pcm_round_trip:
  assumes "\<forall>y. \<bar>real_of_int (rnd y) - y\<bar> < 1" and "32767 \<le> K" and "K \<le> 32768"
    and "\<forall>x \<in> set xs. - 1 \<le> x \<and> x \<le> 1"
  shows "(\<exists>buf. decode K (encode rnd K xs) rate channels = Inr buf
            \<and> length (samples buf) = length xs
            \<and> (\<forall>i < length xs. \<bar>samples buf ! i - xs ! i\<bar> \<le> 1 / 32767)
            \<and> sampleRate buf = rate \<and> channelCount buf = channels)
       \<and> (\<forall>x. - 32768 \<le> encode_sample rnd K x \<and> encode_sample rnd K x \<le> 32767)
       \<and> (\<forall>x. 32767 \<le> rnd (x * K) \<longrightarrow> encode_sample rnd K x = 32767)
       \<and> (\<forall>x. rnd (x * K) \<le> - 32768 \<longrightarrow> encode_sample rnd K x = - 32768)
       \<and> (\<forall>bs. (decode K bs rate channels = Inl DecodeError) = odd (length bs))"
proof -
  from assms(2) have Kpos: "0 < K" by simp
  define buf where "buf = \<lparr> samples = map (\<lambda>v. real_of_int v / K) (map (encode_sample rnd K) xs),
                            sampleRate = rate, channelCount = channels \<rparr>"
  have d: "decode K (encode rnd K xs) rate channels = Inr buf"
    by (simp add: decode_def int16s_encode buf_def)
  have step: "1 / K \<le> 1 / 32767"
    using assms(2) by (simp add: field_simps)
  have close: "\<forall>i < length xs. \<bar>samples buf ! i - xs ! i\<bar> \<le> 1 / 32767"
  proof (intro allI impI)
    fix i assume i: "i < length xs"
    with assms(4) have "- 1 \<le> xs ! i" and "xs ! i \<le> 1"
      by simp_all
    from encode_sample_close [OF assms(1) Kpos assms(3) this] i
    have "\<bar>samples buf ! i - xs ! i\<bar> \<le> 1 / K"
      by (simp add: buf_def)
    with step show "\<bar>samples buf ! i - xs ! i\<bar> \<le> 1 / 32767"
      by linarith
  qed
  have fail: "\<forall>bs. (decode K bs rate channels = Inl DecodeError) = odd (length bs)"
  proof
    fix bs
    from int16s_None [of bs] show "(decode K bs rate channels = Inl DecodeError) = odd (length bs)"
      by (cases "int16s bs") (simp_all add: decode_def)
  qed
  have "length (samples buf) = length xs" and "sampleRate buf = rate"
    and "channelCount buf = channels"
    by (simp_all add: buf_def)
  with d close fail clamp_int16_range show ?thesis
    by (auto simp add: encode_sample_def clamp_int16_def)
qed

lemma codec_example:
  "decode 32768 (encode round_down 32768 [0, 1 / 2, 1, - 1]) 24000 1
     = Inr \<lparr> samples = [0, 1 / 2, 32767 / 32768, - 1], sampleRate = 24000,
             channelCount = 1 \<rparr>"
  by (simp add: decode_def encode_def encode_sample_def round_down_def clamp_int16_def
        int16_bytes_def bytes_int16_def Let_def)

text \<open>
  Rounding down with scale 32768: full scale comes back as 32767/32768, out-of-range
  samples are clamped, three bytes do not decode.
\<close>

theorem pcm_round_trip_witness:
  "- 1 \<le> (0 :: real) \<and> (0 :: real) \<le> 1 \<and> - 1 \<le> (1 / 2 :: real) \<and> (1 / 2 :: real) \<le> 1
   \<and> decode 32768 (encode round_down 32768 [0, 1 / 2, 1, - 1]) 24000 1
       = Inr \<lparr> samples = [0, 1 / 2, 32767 / 32768, - 1], sampleRate = 24000,
               channelCount = 1 \<rparr>
   \<and> \<bar>[0, 1 / 2, 32767 / 32768, - 1] ! 2 - [0, 1 / 2, 1, - 1 :: real] ! 2\<bar> \<le> 1 / 32768
   \<and> encode_sample round_down 32768 2 = 32767
   \<and> encode_sample round_down 32768 (- 3) = - 32768
   \<and> decode 32768 [1, 2, 3] 24000 1 = Inl DecodeError"
proof -
  have range: "\<forall>x \<in> set [0, 1 / 2, 1, - 1 :: real]. - 1 \<le> x \<and> x \<le> 1"
    by simp
  have K: "(32767 :: real) \<le> 32768" "(32768 :: real) \<le> 32768"
    by simp_all
  note P = pcm_round_trip [OF round_down_close K range, of 24000 1]
  from P have hi: "32767 \<le> round_down (2 * 32768) \<longrightarrow> encode_sample round_down 32768 2 = 32767"
    by blast
  from P have lo: "round_down (- 3 * 32768) \<le> - 32768
                     \<longrightarrow> encode_sample round_down 32768 (- 3) = - 32768"
    by blast
  from P have odd: "(decode 32768 [1, 2, 3] 24000 1 = Inl DecodeError) = odd (length [1, 2, 3 :: byte])"
    by blast
  from hi have "encode_sample round_down 32768 2 = 32767"
    by (simp add: round_down_def)
  moreover from lo have "encode_sample round_down 32768 (- 3) = - 32768"
    by (simp add: round_down_def)
  moreover from odd have "decode 32768 [1, 2, 3] 24000 1 = Inl DecodeError"
    by simp
  ultimately show ?thesis
    using codec_example by simp
qed

end
